theory Spec2Isabelle
  imports Main "HOL-Library.Sublist" "HOL-Library.Word"
begin

section \<open>The intermediate representation read and written by the pass\<close>

text \<open>
  \<^verbatim>\<open>src/passes/LoggerPass.cpp\<close> is an LLVM function pass. It reads only a few things
  of the host representation: the kind of a type, the type of a value, whether an
  instruction is a PHI node, an exception-handling pad, a terminator or a return, the
  name of a function, and the symbol table of the module. The types below keep exactly that.

  Types. Pointers are opaque and carry their address space; \<open>OtherTy\<close> stands for
  every type that is neither pointer, integer nor floating point (structures, arrays,
  vectors, ...).
\<close>

datatype ty =
    VoidTy
  | IntegerTy nat
  | PointerTy nat
  | HalfTy | BFloatTy | FloatTy | DoubleTy | X86_FP80Ty | FP128Ty | PPC_FP128Ty
  | OtherTy nat

fun isPointerTy :: "ty \<Rightarrow> bool" where
  "isPointerTy (PointerTy _) = True"
| "isPointerTy _ = False"

fun isIntegerTy :: "ty \<Rightarrow> bool" where
  "isIntegerTy (IntegerTy _) = True"
| "isIntegerTy _ = False"

fun isFloatingPointTy :: "ty \<Rightarrow> bool" where
  "isFloatingPointTy HalfTy = True"
| "isFloatingPointTy BFloatTy = True"
| "isFloatingPointTy FloatTy = True"
| "isFloatingPointTy DoubleTy = True"
| "isFloatingPointTy X86_FP80Ty = True"
| "isFloatingPointTy FP128Ty = True"
| "isFloatingPointTy PPC_FP128Ty = True"
| "isFloatingPointTy _ = False"

fun isDoubleTy :: "ty \<Rightarrow> bool" where
  "isDoubleTy DoubleTy = True"
| "isDoubleTy _ = False"

fun getScalarSizeInBits :: "ty \<Rightarrow> nat" where
  "getScalarSizeInBits (IntegerTy w) = w"
| "getScalarSizeInBits HalfTy = 16"
| "getScalarSizeInBits BFloatTy = 16"
| "getScalarSizeInBits FloatTy = 32"
| "getScalarSizeInBits DoubleTy = 64"
| "getScalarSizeInBits X86_FP80Ty = 80"
| "getScalarSizeInBits FP128Ty = 128"
| "getScalarSizeInBits PPC_FP128Ty = 128"
| "getScalarSizeInBits _ = 0"

fun getPointerAddressSpace :: "ty \<Rightarrow> nat" where
  "getPointerAddressSpace (PointerTy a) = a"
| "getPointerAddressSpace _ = 0"

text \<open>
  Values. \<open>Argument i T\<close> is parameter \<open>i\<close> of the function, \<open>Local\<close> the result of an
  instruction of the original program, \<open>ConstantInt w n\<close> the constant \<open>n\<close> of \<open>w\<close> bits
  and \<open>Constant\<close> any other constant that the builder folds under a cast.
  \<open>GlobalString n\<close> is the address of the \<open>n\<close>-th global string constant of
  the module (its identity is its position in the module's list of globals).
  \<open>CastResult op v T\<close> is the result of the cast \<open>op v to T\<close>: of the cast instruction
  when \<open>v\<close> is not a constant, of the folded constant when it is. Of the cast
  operations the pass can only emit \<open>ZExt\<close>, \<open>BitCast\<close>, \<open>FPExt\<close> and
  \<open>AddrSpaceCast\<close>; \<open>SExt\<close> is there to be compared with.
\<close>

datatype castop = ZExt | SExt | BitCast | FPExt | AddrSpaceCast

datatype val =
    Argument nat ty
  | GlobalString nat
  | ConstantInt nat int
  | Constant nat ty
  | Local nat ty
  | CastResult castop val ty

fun getType :: "val \<Rightarrow> ty" where
  "getType (Argument _ T) = T"
| "getType (GlobalString _) = PointerTy 0"
| "getType (ConstantInt w _) = IntegerTy w"
| "getType (Constant _ T) = T"
| "getType (Local _ T) = T"
| "getType (CastResult _ _ T) = T"

fun isConstant :: "val \<Rightarrow> bool" where
  "isConstant (Argument _ _) = False"
| "isConstant (GlobalString _) = True"
| "isConstant (ConstantInt _ _) = True"
| "isConstant (Constant _ _) = True"
| "isConstant (Local _ _) = False"
| "isConstant (CastResult _ v _) = isConstant v"

text \<open>
  Instructions. \<open>PHINode\<close>, \<open>EHPad\<close> (a landing, catch or cleanup pad) and \<open>Other\<close>
  are instructions of the original program, of which the pass only asks the kind;
  \<open>CallInst\<close> is a call by the name of its callee, \<open>CastInst\<close> a cast, \<open>ReturnInst\<close> a
  return with its operand if it has one, and \<open>Terminator\<close> any terminator that is not
  a return, with its successor blocks. A basic block is the list of its instructions, a
  function body the list of its blocks, the entry block first.
\<close>

datatype instr =
    PHINode nat
  | EHPad nat
  | Other nat
  | CallInst string "val list"
  | CastInst castop val ty
  | ReturnInst "val option"
  | Terminator nat "nat list"

fun isPHINode :: "instr \<Rightarrow> bool" where
  "isPHINode (PHINode _) = True"
| "isPHINode _ = False"

fun isEHPad :: "instr \<Rightarrow> bool" where
  "isEHPad (EHPad _) = True"
| "isEHPad _ = False"

fun isReturnInst :: "instr \<Rightarrow> bool" where
  "isReturnInst (ReturnInst _) = True"
| "isReturnInst _ = False"

fun isTerminator :: "instr \<Rightarrow> bool" where
  "isTerminator (ReturnInst _) = True"
| "isTerminator (Terminator _ _) = True"
| "isTerminator _ = False"

fun successors :: "instr \<Rightarrow> nat list" where
  "successors (Terminator _ bs) = bs"
| "successors _ = []"

record func =
  fname :: string
  callingConv :: nat
  returnType :: ty
  args :: "ty list"
  blocks :: "instr list list"

text \<open>
  The module: its function symbol table (name and function type: return type, parameter
  types, variadic flag) and its global string constants (name asked for, contents), in
  the order of creation.
\<close>

type_synonym FunctionType = "ty \<times> ty list \<times> bool"

record module =
  functionList :: "(string \<times> FunctionType) list"
  globalList :: "(string \<times> string) list"

section \<open>The host interface used by the pass\<close>

text \<open>
  \<open>Function::isDeclaration\<close>: the function has no basic block.
  \<open>Function::isIntrinsic\<close>: the name starts with \<^verbatim>\<open>llvm.\<close>.
\<close>

definition isDeclaration :: "func \<Rightarrow> bool" where
  "isDeclaration F = (blocks F = [])"

definition isIntrinsic :: "func \<Rightarrow> bool" where
  "isIntrinsic F = prefix ''llvm.'' (fname F)"

text \<open>
  \<open>Module::getOrInsertFunction\<close>: look the name up; add a declaration only when there
  is none.
\<close>

definition getOrInsertFunction :: "string \<Rightarrow> FunctionType \<Rightarrow> module \<Rightarrow> string \<times> module" where
  "getOrInsertFunction Name T M =
     (if Name \<in> set (map fst (functionList M)) then (Name, M)
      else (Name, M\<lparr>functionList := functionList M @ [(Name, T)]\<rparr>))"

text \<open>
  \<open>IRBuilder::CreateGlobalStringPtr\<close>: always a new global constant, and no instruction.
  The host renames a global whose name is taken; the model keeps the name asked for and
  tells the constants apart by their position.
\<close>

definition CreateGlobalStringPtr :: "string \<Rightarrow> string \<Rightarrow> module \<Rightarrow> val \<times> module" where
  "CreateGlobalStringPtr Str Name M =
     (GlobalString (length (globalList M)), M\<lparr>globalList := globalList M @ [(Name, Str)]\<rparr>)"

text \<open>
  An \<open>IRBuilder\<close> constructed on an instruction inserts before that instruction: it is
  the block and the position of that instruction. Every insertion moves the instruction,
  and the builder with it, one position further.
\<close>

type_synonym IRBuilder = "nat \<times> nat"

definition Insert :: "instr \<Rightarrow> IRBuilder \<Rightarrow> func \<Rightarrow> IRBuilder \<times> func" where
  "Insert I B F =
     (case B of (b, p) \<Rightarrow>
        ((b, Suc p),
         F\<lparr>blocks := (blocks F)[b := take p (blocks F ! b) @ I # drop p (blocks F ! b)]\<rparr>))"

definition CreateCall :: "string \<Rightarrow> val list \<Rightarrow> IRBuilder \<Rightarrow> func \<Rightarrow> IRBuilder \<times> func" where
  "CreateCall Callee Ops B F = Insert (CallInst Callee Ops) B F"

text \<open>
  \<open>IRBuilder::CreateCast\<close>: the value itself when it has the destination type already,
  a folded constant (no instruction) when it is a constant, a cast instruction otherwise.
\<close>

definition CreateCast :: "castop \<Rightarrow> val \<Rightarrow> ty \<Rightarrow> IRBuilder \<Rightarrow> func \<Rightarrow> val \<times> IRBuilder \<times> func" where
  "CreateCast Op V DestTy B F =
     (if getType V = DestTy then (V, B, F)
      else if isConstant V then (CastResult Op V DestTy, B, F)
      else (let (B1, F1) = Insert (CastInst Op V DestTy) B F
            in (CastResult Op V DestTy, B1, F1)))"

definition CreateZExtOrBitCast :: "val \<Rightarrow> ty \<Rightarrow> IRBuilder \<Rightarrow> func \<Rightarrow> val \<times> IRBuilder \<times> func" where
  "CreateZExtOrBitCast V DestTy B F =
     CreateCast (if getScalarSizeInBits (getType V) = getScalarSizeInBits DestTy
                 then BitCast else ZExt) V DestTy B F"

definition CreateFPExt :: "val \<Rightarrow> ty \<Rightarrow> IRBuilder \<Rightarrow> func \<Rightarrow> val \<times> IRBuilder \<times> func" where
  "CreateFPExt V DestTy B F = CreateCast FPExt V DestTy B F"

definition CreatePointerCast :: "val \<Rightarrow> ty \<Rightarrow> IRBuilder \<Rightarrow> func \<Rightarrow> val \<times> IRBuilder \<times> func" where
  "CreatePointerCast V DestTy B F =
     CreateCast (if getPointerAddressSpace (getType V) \<noteq> getPointerAddressSpace DestTy
                 then AddrSpaceCast else BitCast) V DestTy B F"

text \<open>
  \<open>BasicBlock::getFirstNonPHI\<close>, \<open>BasicBlock::getFirstInsertionPt\<close> (the first
  instruction that is not a PHI node, one further when that is an exception-handling pad;
  the length of the block stands for the end iterator) and \<open>BasicBlock::getTerminator\<close>
  (null unless the last instruction is a terminator).
\<close>

fun getFirstNonPHI :: "instr list \<Rightarrow> nat option" where
  "getFirstNonPHI [] = None"
| "getFirstNonPHI (I # Is) =
     (if isPHINode I then map_option Suc (getFirstNonPHI Is) else Some 0)"

definition getFirstInsertionPt :: "instr list \<Rightarrow> nat" where
  "getFirstInsertionPt BB =
     (case getFirstNonPHI BB of
        None \<Rightarrow> length BB
      | Some k \<Rightarrow> if isEHPad (BB ! k) then Suc k else k)"

definition getTerminator :: "instr list \<Rightarrow> instr option" where
  "getTerminator BB = (if BB = [] \<or> \<not> isTerminator (last BB) then None else Some (last BB))"

definition getEntryBlock :: "func \<Rightarrow> instr list" where
  "getEntryBlock F = blocks F ! 0"

text \<open>
  \<open>PreservedAnalyses\<close>: the set of preserved analysis keys. \<open>all()\<close> holds the key that
  stands for every analysis, \<open>none()\<close> is empty; an analysis set such as the CFG analyses
  counts as preserved when its key or the all-analyses key is in the set.
\<close>

datatype AnalysisKey = AllAnalysesKey | CFGAnalysesKey | AnalysisID nat

type_synonym PreservedAnalyses = "AnalysisKey set"

definition PreservedAnalyses_all :: PreservedAnalyses where
  "PreservedAnalyses_all = {AllAnalysesKey}"

definition PreservedAnalyses_none :: PreservedAnalyses where
  "PreservedAnalyses_none = {}"

definition areAllPreserved :: "PreservedAnalyses \<Rightarrow> bool" where
  "areAllPreserved PA = (AllAnalysesKey \<in> PA)"

definition preserved :: "AnalysisKey \<Rightarrow> PreservedAnalyses \<Rightarrow> bool" where
  "preserved k PA = (AllAnalysesKey \<in> PA \<or> k \<in> PA)"

section \<open>The pass\<close>

text \<open>
  The functions of \<^verbatim>\<open>LoggerPass.cpp\<close> in the order of the source: the eligibility
  filter (lines 18 to 26), the lookup of \<^verbatim>\<open>printf\<close> (lines 28 to 33), and the
  emission helpers (lines 35 to 103), each with the builder, the module and the function
  it changes as explicit state. The callee is kept by its name, and \<open>getInt32\<close> of the
  argument index is \<open>ConstantInt 32\<close> of it.
\<close>

definition isSkippableFunction :: "func \<Rightarrow> bool" where
  "isSkippableFunction F =
     (if isDeclaration F then True
      else if isIntrinsic F then True
      else let Name = fname F in
        if Name = [] then False
        else if Name = ''printf'' then True
        else if prefix ''__logger'' Name then True
        else False)"

definition PrintfTy :: FunctionType where
  "PrintfTy = (IntegerTy 32, [PointerTy 0], True)"

definition getOrInsertPrintf :: "module \<Rightarrow> string \<times> module" where
  "getOrInsertPrintf M = getOrInsertFunction ''printf'' PrintfTy M"

definition getFunctionNameGlobal :: "module \<Rightarrow> func \<Rightarrow> val \<times> module" where
  "getFunctionNameGlobal M F = CreateGlobalStringPtr (fname F) (''__logger.fn.'' @ fname F) M"

definition emitPrintfEnter ::
  "IRBuilder \<Rightarrow> module \<Rightarrow> func \<Rightarrow> val \<Rightarrow> IRBuilder \<times> module \<times> func" where
  "emitPrintfEnter B M F FnNameStr =
     (let (Printf, M1) = getOrInsertPrintf M;
          (Fmt, M2) = CreateGlobalStringPtr ''>> %s\<newline>'' ''__logger.fmt.enter'' M1;
          (B1, F1) = CreateCall Printf [Fmt, FnNameStr] B F
      in (B1, M2, F1))"

definition emitPrintfAggregate ::
  "IRBuilder \<Rightarrow> module \<Rightarrow> func \<Rightarrow> val \<Rightarrow> nat \<Rightarrow> IRBuilder \<times> module \<times> func" where
  "emitPrintfAggregate B M F FnNameStr ArgIndex =
     (let (Printf, M1) = getOrInsertPrintf M;
          (Fmt, M2) = CreateGlobalStringPtr ''   %s(arg%d)=(aggregate)\<newline>''
                        ''__logger.fmt.arg.agg'' M1;
          Idx = ConstantInt 32 (int ArgIndex);
          (B1, F1) = CreateCall Printf [Fmt, FnNameStr, Idx] B F
      in (B1, M2, F1))"

definition emitPrintfArgInt ::
  "IRBuilder \<Rightarrow> module \<Rightarrow> func \<Rightarrow> val \<Rightarrow> nat \<Rightarrow> val \<Rightarrow> IRBuilder \<times> module \<times> func" where
  "emitPrintfArgInt B M F FnNameStr ArgIndex V =
     (let (Printf, M1) = getOrInsertPrintf M;
          (Fmt, M2) = CreateGlobalStringPtr ''   %s(arg%d)=%lld\<newline>''
                        ''__logger.fmt.arg.i'' M1;
          Idx = ConstantInt 32 (int ArgIndex);
          (I64, B1, F1) = CreateZExtOrBitCast V (IntegerTy 64) B F;
          (B2, F2) = CreateCall Printf [Fmt, FnNameStr, Idx, I64] B1 F1
      in (B2, M2, F2))"

definition emitPrintfArgFloat ::
  "IRBuilder \<Rightarrow> module \<Rightarrow> func \<Rightarrow> val \<Rightarrow> nat \<Rightarrow> val \<Rightarrow> IRBuilder \<times> module \<times> func" where
  "emitPrintfArgFloat B M F FnNameStr ArgIndex V =
     (let (Printf, M1) = getOrInsertPrintf M;
          (Fmt, M2) = CreateGlobalStringPtr ''   %s(arg%d)=%f\<newline>''
                        ''__logger.fmt.arg.f'' M1;
          Idx = ConstantInt 32 (int ArgIndex);
          (D, B1, F1) = (if isDoubleTy (getType V) then (V, B, F)
                         else CreateFPExt V DoubleTy B F);
          (B2, F2) = CreateCall Printf [Fmt, FnNameStr, Idx, D] B1 F1
      in (B2, M2, F2))"

definition emitPrintfArgPtr ::
  "IRBuilder \<Rightarrow> module \<Rightarrow> func \<Rightarrow> val \<Rightarrow> nat \<Rightarrow> val \<Rightarrow> IRBuilder \<times> module \<times> func" where
  "emitPrintfArgPtr B M F FnNameStr ArgIndex V =
     (let (Printf, M1) = getOrInsertPrintf M;
          (Fmt, M2) = CreateGlobalStringPtr ''   %s(arg%d)=%p\<newline>''
                        ''__logger.fmt.arg.p'' M1;
          Idx = ConstantInt 32 (int ArgIndex);
          (P, B1, F1) = CreatePointerCast V (PointerTy 0) B F;
          (B2, F2) = CreateCall Printf [Fmt, FnNameStr, Idx, P] B1 F1
      in (B2, M2, F2))"

definition emitPrintfRetVoid ::
  "IRBuilder \<Rightarrow> module \<Rightarrow> func \<Rightarrow> val \<Rightarrow> IRBuilder \<times> module \<times> func" where
  "emitPrintfRetVoid B M F FnNameStr =
     (let (Printf, M1) = getOrInsertPrintf M;
          (Fmt, M2) = CreateGlobalStringPtr ''<< %s returns void\<newline>''
                        ''__logger.fmt.ret.v'' M1;
          (B1, F1) = CreateCall Printf [Fmt, FnNameStr] B F
      in (B1, M2, F1))"

definition emitPrintfRetInt ::
  "IRBuilder \<Rightarrow> module \<Rightarrow> func \<Rightarrow> val \<Rightarrow> val \<Rightarrow> IRBuilder \<times> module \<times> func" where
  "emitPrintfRetInt B M F FnNameStr V =
     (let (Printf, M1) = getOrInsertPrintf M;
          (Fmt, M2) = CreateGlobalStringPtr ''<< %s returns %lld\<newline>''
                        ''__logger.fmt.ret.i'' M1;
          (I64, B1, F1) = CreateZExtOrBitCast V (IntegerTy 64) B F;
          (B2, F2) = CreateCall Printf [Fmt, FnNameStr, I64] B1 F1
      in (B2, M2, F2))"

definition emitPrintfRetFloat ::
  "IRBuilder \<Rightarrow> module \<Rightarrow> func \<Rightarrow> val \<Rightarrow> val \<Rightarrow> IRBuilder \<times> module \<times> func" where
  "emitPrintfRetFloat B M F FnNameStr V =
     (let (Printf, M1) = getOrInsertPrintf M;
          (Fmt, M2) = CreateGlobalStringPtr ''<< %s returns %f\<newline>''
                        ''__logger.fmt.ret.f'' M1;
          (D, B1, F1) = (if isDoubleTy (getType V) then (V, B, F)
                         else CreateFPExt V DoubleTy B F);
          (B2, F2) = CreateCall Printf [Fmt, FnNameStr, D] B1 F1
      in (B2, M2, F2))"

definition emitPrintfRetPtr ::
  "IRBuilder \<Rightarrow> module \<Rightarrow> func \<Rightarrow> val \<Rightarrow> val \<Rightarrow> IRBuilder \<times> module \<times> func" where
  "emitPrintfRetPtr B M F FnNameStr V =
     (let (Printf, M1) = getOrInsertPrintf M;
          (Fmt, M2) = CreateGlobalStringPtr ''<< %s returns %p\<newline>''
                        ''__logger.fmt.ret.p'' M1;
          (P, B1, F1) = CreatePointerCast V (PointerTy 0) B F;
          (B2, F2) = CreateCall Printf [Fmt, FnNameStr, P] B1 F1
      in (B2, M2, F2))"

text \<open>
  The failures of \<open>run\<close> on a malformed function: dereferencing the end iterator of the
  entry block, and casting the null terminator of a block.
\<close>

datatype error = EndIterator | NullTerminator

text \<open>
  The loop over the parameters (lines 118 to 132). Each iteration builds a new builder
  on the first insertion point of the entry block as it is then.
\<close>

fun argLoop :: "val \<Rightarrow> ty list \<Rightarrow> nat \<Rightarrow> module \<Rightarrow> func \<Rightarrow> error + module \<times> func" where
  "argLoop FnNameStr [] argIndex M F = Inr (M, F)"
| "argLoop FnNameStr (T # Ts) argIndex M F =
     (let Entry = getEntryBlock F; p = getFirstInsertionPt Entry in
      if length Entry \<le> p then Inl EndIterator
      else
        let BA = (0, p); Arg = Argument argIndex T;
            (B1, M1, F1) =
              (if isPointerTy T then emitPrintfArgPtr BA M F FnNameStr argIndex Arg
               else if isIntegerTy T then emitPrintfArgInt BA M F FnNameStr argIndex Arg
               else if isFloatingPointTy T then emitPrintfArgFloat BA M F FnNameStr argIndex Arg
               else emitPrintfAggregate BA M F FnNameStr argIndex)
        in argLoop FnNameStr Ts (Suc argIndex) M1 F1)"

text \<open>
  The loop that collects the return instructions (lines 134 to 139): a return
  instruction is kept as the index of its block, of which it is the last instruction.
\<close>

fun collectReturns :: "instr list list \<Rightarrow> nat \<Rightarrow> error + nat list" where
  "collectReturns [] b = Inr []"
| "collectReturns (BB # BBs) b =
     (case getTerminator BB of
        None \<Rightarrow> Inl NullTerminator
      | Some T \<Rightarrow>
          (case collectReturns BBs (Suc b) of
             Inl e \<Rightarrow> Inl e
           | Inr Returns \<Rightarrow> Inr (if isReturnInst T then b # Returns else Returns)))"

text \<open>The loop over the return instructions (lines 141 to 160).\<close>

definition emitReturn :: "val \<Rightarrow> nat \<Rightarrow> module \<Rightarrow> func \<Rightarrow> module \<times> func" where
  "emitReturn FnNameStr b M F =
     (let BB = blocks F ! b; BR = (b, length BB - 1) in
      case last BB of
        ReturnInst None \<Rightarrow>
          (let (B1, M1, F1) = emitPrintfRetVoid BR M F FnNameStr in (M1, F1))
      | ReturnInst (Some RetVal) \<Rightarrow>
          (let RT = getType RetVal;
               (B1, M1, F1) =
                 (if isPointerTy RT then emitPrintfRetPtr BR M F FnNameStr RetVal
                  else if isIntegerTy RT then emitPrintfRetInt BR M F FnNameStr RetVal
                  else if isFloatingPointTy RT then emitPrintfRetFloat BR M F FnNameStr RetVal
                  else
                    (let (Printf, M1) = getOrInsertPrintf M;
                         (Fmt, M2) = CreateGlobalStringPtr ''<< %s returns (aggregate)\<newline>''
                                       ''__logger.fmt.ret.agg'' M1;
                         (B1, F1) = CreateCall Printf [Fmt, FnNameStr] BR F
                     in (B1, M2, F1)))
           in (M1, F1))
      | _ \<Rightarrow> (M, F))"

fun retLoop :: "val \<Rightarrow> nat list \<Rightarrow> module \<Rightarrow> func \<Rightarrow> module \<times> func" where
  "retLoop FnNameStr [] M F = (M, F)"
| "retLoop FnNameStr (b # Returns) M F =
     (let (M1, F1) = emitReturn FnNameStr b M F in retLoop FnNameStr Returns M1 F1)"

text \<open>
  \<open>LoggerFunctionPass::run\<close> (lines 107 to 163). The analysis manager is not used.
\<close>

definition run :: "module \<Rightarrow> func \<Rightarrow> error + PreservedAnalyses \<times> module \<times> func" where
  "run M F =
     (if isSkippableFunction F then Inr (PreservedAnalyses_all, M, F)
      else
        let Entry = getEntryBlock F; p = getFirstInsertionPt Entry in
        if length Entry \<le> p then Inl EndIterator
        else
          let B = (0, p);
              (FnNameStr, M1) = getFunctionNameGlobal M F;
              (B1, M2, F1) = emitPrintfEnter B M1 F FnNameStr
          in case argLoop FnNameStr (args F) 0 M2 F1 of
               Inl e \<Rightarrow> Inl e
             | Inr (M3, F3) \<Rightarrow>
                 (case collectReturns (blocks F3) 0 of
                    Inl e \<Rightarrow> Inl e
                  | Inr Returns \<Rightarrow>
                      (let (M4, F4) = retLoop FnNameStr Returns M3 F3
                       in Inr (PreservedAnalyses_none, M4, F4))))"

section \<open>The instructions and constants the pass adds, in closed form\<close>

text \<open>
  The definitions of this section describe results; they are not part of the pass. The
  lemmas of the next section prove that the pass computes them.

  \<open>insertAt b p Is F\<close> is \<open>F\<close> with the instructions \<open>Is\<close> put before position \<open>p\<close>
  of block \<open>b\<close>. \<open>declarePrintf\<close> is the module after \<open>getOrInsertPrintf\<close>, and
  \<open>addGlobal\<close>, \<open>addGlobals\<close> the module with new string constants at the end.
  \<open>castInstrs\<close> and \<open>castValue\<close> are the instructions and the value of one
  \<open>CreateCast\<close>; \<open>zextOp\<close> and \<open>ptrOp\<close> the operations that \<open>CreateZExtOrBitCast\<close> to
  64 bits and \<open>CreatePointerCast\<close> to address space 0 choose; \<open>widen\<close> the cast a
  logged value gets by its type, none for a value of any other type.
  \<open>argLog\<close> and \<open>retLog\<close> are the instructions of one argument log and of one return
  log, whose format string is the global number \<open>g\<close> and whose function-name string is
  \<open>fn\<close>; \<open>argFormat\<close> and \<open>retFormat\<close> the name and the contents of that format string.
  A function is \<open>wellFormed\<close> when every block ends in a terminator: on any other
  function \<open>run\<close> dereferences an end iterator or a null terminator.

  \<open>argLogs\<close> is what the argument loop leaves at the insertion point: the log of a
  later parameter before the log of an earlier one. \<open>instrReturns\<close> puts a return log
  before the last instruction of every block that ends in a return, and \<open>retGlobals\<close>
  lists the format strings of these logs. \<open>entryLog\<close> is all that is added at the
  insertion point of the entry block; \<open>instrumentedBlocks\<close> and \<open>instrumentedGlobals\<close>
  are the blocks of the function and the new string constants of the module after \<open>run\<close>.
\<close>

definition insertAt :: "nat \<Rightarrow> nat \<Rightarrow> instr list \<Rightarrow> func \<Rightarrow> func" where
  "insertAt b p Is F =
     F\<lparr>blocks := (blocks F)[b := take p (blocks F ! b) @ Is @ drop p (blocks F ! b)]\<rparr>"

definition declarePrintf :: "module \<Rightarrow> module" where
  "declarePrintf M = snd (getOrInsertPrintf M)"

definition addGlobal :: "string \<Rightarrow> string \<Rightarrow> module \<Rightarrow> module" where
  "addGlobal Name Str M = M\<lparr>globalList := globalList M @ [(Name, Str)]\<rparr>"

definition castInstrs :: "castop \<Rightarrow> val \<Rightarrow> ty \<Rightarrow> instr list" where
  "castInstrs Op V T = (if getType V = T \<or> isConstant V then [] else [CastInst Op V T])"

definition castValue :: "castop \<Rightarrow> val \<Rightarrow> ty \<Rightarrow> val" where
  "castValue Op V T = (if getType V = T then V else CastResult Op V T)"

definition zextOp :: "ty \<Rightarrow> castop" where
  "zextOp T = (if getScalarSizeInBits T = 64 then BitCast else ZExt)"

definition ptrOp :: "ty \<Rightarrow> castop" where
  "ptrOp T = (if getPointerAddressSpace T \<noteq> 0 then AddrSpaceCast else BitCast)"

definition widen :: "val \<Rightarrow> (castop \<times> ty) option" where
  "widen V =
     (let T = getType V in
      if isPointerTy T then Some (ptrOp T, PointerTy 0)
      else if isIntegerTy T then Some (zextOp T, IntegerTy 64)
      else if isFloatingPointTy T then Some (FPExt, DoubleTy)
      else None)"

definition widenInstrs :: "val \<Rightarrow> instr list" where
  "widenInstrs V = (case widen V of None \<Rightarrow> [] | Some (Op, T) \<Rightarrow> castInstrs Op V T)"

definition widenValue :: "val \<Rightarrow> val list" where
  "widenValue V = (case widen V of None \<Rightarrow> [] | Some (Op, T) \<Rightarrow> [castValue Op V T])"

definition argLog :: "val \<Rightarrow> nat \<Rightarrow> nat \<Rightarrow> ty \<Rightarrow> instr list" where
  "argLog fn g i T =
     widenInstrs (Argument i T) @
     [CallInst ''printf''
        ([GlobalString g, fn, ConstantInt 32 (int i)] @ widenValue (Argument i T))]"

fun retLog :: "val \<Rightarrow> nat \<Rightarrow> val option \<Rightarrow> instr list" where
  "retLog fn g None = [CallInst ''printf'' [GlobalString g, fn]]"
| "retLog fn g (Some V) =
     widenInstrs V @ [CallInst ''printf'' ([GlobalString g, fn] @ widenValue V)]"

definition argFormat :: "ty \<Rightarrow> string \<times> string" where
  "argFormat T =
     (if isPointerTy T then (''__logger.fmt.arg.p'', ''   %s(arg%d)=%p\<newline>'')
      else if isIntegerTy T then (''__logger.fmt.arg.i'', ''   %s(arg%d)=%lld\<newline>'')
      else if isFloatingPointTy T then (''__logger.fmt.arg.f'', ''   %s(arg%d)=%f\<newline>'')
      else (''__logger.fmt.arg.agg'', ''   %s(arg%d)=(aggregate)\<newline>''))"

fun retFormat :: "val option \<Rightarrow> string \<times> string" where
  "retFormat None = (''__logger.fmt.ret.v'', ''<< %s returns void\<newline>'')"
| "retFormat (Some V) =
     (if isPointerTy (getType V) then (''__logger.fmt.ret.p'', ''<< %s returns %p\<newline>'')
      else if isIntegerTy (getType V) then (''__logger.fmt.ret.i'', ''<< %s returns %lld\<newline>'')
      else if isFloatingPointTy (getType V) then (''__logger.fmt.ret.f'', ''<< %s returns %f\<newline>'')
      else (''__logger.fmt.ret.agg'', ''<< %s returns (aggregate)\<newline>''))"

definition wellFormed :: "func \<Rightarrow> bool" where
  "wellFormed F = (\<forall>BB \<in> set (blocks F). BB \<noteq> [] \<and> isTerminator (last BB))"

definition addGlobals :: "(string \<times> string) list \<Rightarrow> module \<Rightarrow> module" where
  "addGlobals gs M = M\<lparr>globalList := globalList M @ gs\<rparr>"

fun argLogs :: "val \<Rightarrow> nat \<Rightarrow> nat \<Rightarrow> ty list \<Rightarrow> instr list" where
  "argLogs fn g i [] = []"
| "argLogs fn g i (T # Ts) = argLogs fn (Suc g) (Suc i) Ts @ argLog fn g i T"

fun instrReturns :: "val \<Rightarrow> nat \<Rightarrow> instr list list \<Rightarrow> instr list list" where
  "instrReturns fn g [] = []"
| "instrReturns fn g (BB # BBs) =
     (case last BB of
        ReturnInst rv \<Rightarrow> (butlast BB @ retLog fn g rv @ [last BB]) # instrReturns fn (Suc g) BBs
      | _ \<Rightarrow> BB # instrReturns fn g BBs)"

fun retGlobals :: "instr list list \<Rightarrow> (string \<times> string) list" where
  "retGlobals [] = []"
| "retGlobals (BB # BBs) =
     (case last BB of
        ReturnInst rv \<Rightarrow> retFormat rv # retGlobals BBs
      | _ \<Rightarrow> retGlobals BBs)"

definition entryLog :: "val \<Rightarrow> nat \<Rightarrow> ty list \<Rightarrow> instr list" where
  "entryLog fn g Ts = argLogs fn (Suc g) 0 Ts @ [CallInst ''printf'' [GlobalString g, fn]]"

definition instrumentedBlocks :: "nat \<Rightarrow> func \<Rightarrow> instr list list" where
  "instrumentedBlocks g F =
     instrReturns (GlobalString g) (g + 2 + length (args F))
       (blocks (insertAt 0 (getFirstInsertionPt (blocks F ! 0))
                  (entryLog (GlobalString g) (Suc g) (args F)) F))"

definition instrumentedGlobals :: "func \<Rightarrow> (string \<times> string) list" where
  "instrumentedGlobals F =
     [(''__logger.fn.'' @ fname F, fname F), (''__logger.fmt.enter'', ''>> %s\<newline>'')] @
     map argFormat (args F) @ retGlobals (blocks F)"

text \<open>
  \<open>retIndex BBs b\<close> counts the blocks before block \<open>b\<close> that end in a return;
  \<open>returnLog\<close> is the return log of a terminator: that of \<open>retLog\<close> for a return,
  nothing for any other terminator. \<open>insertedOnly P xs ys\<close> says that \<open>ys\<close> is \<open>xs\<close>
  with instructions satisfying \<open>P\<close> added and nothing else changed: every element of
  \<open>xs\<close> is still there, in the same order.
\<close>

definition retIndex :: "instr list list \<Rightarrow> nat \<Rightarrow> nat" where
  "retIndex BBs b = length (filter isReturnInst (map last (take b BBs)))"

definition returnLog :: "val \<Rightarrow> nat \<Rightarrow> instr \<Rightarrow> instr list" where
  "returnLog fn g I = (case I of ReturnInst rv \<Rightarrow> retLog fn g rv | _ \<Rightarrow> [])"

fun isCallOrCast :: "instr \<Rightarrow> bool" where
  "isCallOrCast (CallInst _ _) = True"
| "isCallOrCast (CastInst _ _ _) = True"
| "isCallOrCast _ = False"

fun insertedOnly :: "('a \<Rightarrow> bool) \<Rightarrow> 'a list \<Rightarrow> 'a list \<Rightarrow> bool" where
  "insertedOnly P xs [] = (xs = [])"
| "insertedOnly P [] (y # ys) = (P y \<and> insertedOnly P [] ys)"
| "insertedOnly P (x # xs) (y # ys) =
     ((x = y \<and> insertedOnly P xs ys) \<or> (P y \<and> insertedOnly P (x # xs) ys))"

text \<open>
  \<open>numReturns\<close> is the number of blocks that end in a return. \<open>bodyAfterEntry g F b\<close> is
  what stands before the return log and the terminator of block \<open>b\<close> once the function is
  instrumented: the instructions of the block but its terminator, with the entry and
  argument logs at the first insertion point when it is the entry block.
\<close>

definition numReturns :: "func \<Rightarrow> nat" where
  "numReturns F = retIndex (blocks F) (length (blocks F))"

definition bodyAfterEntry :: "nat \<Rightarrow> func \<Rightarrow> nat \<Rightarrow> instr list" where
  "bodyAfterEntry g F b =
     (if b = 0
      then take (getFirstInsertionPt (blocks F ! 0)) (blocks F ! 0) @
           entryLog (GlobalString g) (Suc g) (args F) @
           drop (getFirstInsertionPt (blocks F ! 0)) (butlast (blocks F ! 0))
      else butlast (blocks F ! b))"

text \<open>
  The host's rules and semantics of the casts the pass emits. \<open>castIsValid\<close> follows
  \<open>CastInst::castIsValid\<close> on the scalar types of this model: an integer or
  floating-point extension needs a strictly wider destination, an address-space cast two
  pointers in different address spaces, a bit cast two pointers in one address space or
  two non-pointer scalars of one size. \<open>evalIntCast Op w w' x\<close> is the unsigned value of
  the result of an integer cast from \<open>w\<close> to \<open>w'\<close> bits of the operand with unsigned value
  \<open>x\<close>; \<open>evalInt env v\<close> is the unsigned value of an integer value, the values of
  arguments and of the original program taken from \<open>env\<close>; \<open>asSigned64\<close> is the number
  that \<^verbatim>\<open>%lld\<close> prints for a 64-bit pattern.
\<close>

fun castIsValid :: "castop \<Rightarrow> ty \<Rightarrow> ty \<Rightarrow> bool" where
  "castIsValid ZExt S D =
     (isIntegerTy S \<and> isIntegerTy D \<and> getScalarSizeInBits S < getScalarSizeInBits D)"
| "castIsValid SExt S D =
     (isIntegerTy S \<and> isIntegerTy D \<and> getScalarSizeInBits S < getScalarSizeInBits D)"
| "castIsValid FPExt S D =
     (isFloatingPointTy S \<and> isFloatingPointTy D \<and> getScalarSizeInBits S < getScalarSizeInBits D)"
| "castIsValid AddrSpaceCast S D =
     (isPointerTy S \<and> isPointerTy D \<and> getPointerAddressSpace S \<noteq> getPointerAddressSpace D)"
| "castIsValid BitCast S D =
     (if isPointerTy S \<or> isPointerTy D
      then isPointerTy S \<and> isPointerTy D \<and> getPointerAddressSpace S = getPointerAddressSpace D
      else (isIntegerTy S \<or> isFloatingPointTy S) \<and> (isIntegerTy D \<or> isFloatingPointTy D) \<and>
           getScalarSizeInBits S = getScalarSizeInBits D)"

fun evalIntCast :: "castop \<Rightarrow> nat \<Rightarrow> nat \<Rightarrow> nat \<Rightarrow> nat" where
  "evalIntCast ZExt w w' x = x mod 2 ^ w"
| "evalIntCast SExt w w' x =
     (if 2 ^ (w - 1) \<le> x mod 2 ^ w then x mod 2 ^ w + (2 ^ w' - 2 ^ w) else x mod 2 ^ w)"
| "evalIntCast _ w w' x = x mod 2 ^ w'"

fun evalInt :: "(val \<Rightarrow> nat) \<Rightarrow> val \<Rightarrow> nat" where
  "evalInt env (CastResult Op v T) =
     evalIntCast Op (getScalarSizeInBits (getType v)) (getScalarSizeInBits T) (evalInt env v)"
| "evalInt env (ConstantInt w n) = nat (n mod 2 ^ w)"
| "evalInt env v = env v mod 2 ^ getScalarSizeInBits (getType v)"

definition asSigned64 :: "nat \<Rightarrow> int" where
  "asSigned64 x = (if x mod 2 ^ 64 < 2 ^ 63 then int (x mod 2 ^ 64) else int (x mod 2 ^ 64) - 2 ^ 64)"

text \<open>
  The pass over a module (lines 174 to 181 register it at two points of the pipeline, each
  through the adaptor that runs a function pass on the functions of the module in turn):
  \<open>runOnModule\<close> runs \<open>run\<close> on each function of the list, threading the module, and
  \<open>runTimes n\<close> does that \<open>n\<close> times over. \<open>funcGlobals\<close> and \<open>moduleGlobals\<close> are the
  string constants one such run creates for a function and for the list; \<open>numPrintf\<close>
  counts the functions of the module named \<^verbatim>\<open>printf\<close>. \<open>isFreshLog g I\<close> says that
  \<open>I\<close> is a cast, or a call to \<^verbatim>\<open>printf\<close> whose function-name string is global \<open>g\<close>
  and whose format string is a later global.
\<close>

fun runOnModule :: "module \<Rightarrow> func list \<Rightarrow> error + module \<times> func list" where
  "runOnModule M [] = Inr (M, [])"
| "runOnModule M (F # Fs) =
     (case run M F of
        Inl e \<Rightarrow> Inl e
      | Inr (PA, M1, F1) \<Rightarrow>
          (case runOnModule M1 Fs of
             Inl e \<Rightarrow> Inl e
           | Inr (M2, Fs2) \<Rightarrow> Inr (M2, F1 # Fs2)))"

fun runTimes :: "nat \<Rightarrow> module \<Rightarrow> func list \<Rightarrow> error + module \<times> func list" where
  "runTimes 0 M Fs = Inr (M, Fs)"
| "runTimes (Suc n) M Fs =
     (case runOnModule M Fs of
        Inl e \<Rightarrow> Inl e
      | Inr (M1, Fs1) \<Rightarrow> runTimes n M1 Fs1)"

definition funcGlobals :: "func \<Rightarrow> (string \<times> string) list" where
  "funcGlobals F = (if isSkippableFunction F then [] else instrumentedGlobals F)"

definition moduleGlobals :: "func list \<Rightarrow> (string \<times> string) list" where
  "moduleGlobals Fs = concat (map funcGlobals Fs)"

definition numPrintf :: "module \<Rightarrow> nat" where
  "numPrintf M = length (filter (\<lambda>d. fst d = ''printf'') (functionList M))"

fun isFreshLog :: "nat \<Rightarrow> instr \<Rightarrow> bool" where
  "isFreshLog g (CallInst Callee (GlobalString k # GlobalString j # Ops)) =
     (Callee = ''printf'' \<and> g < k \<and> j = g)"
| "isFreshLog g (CastInst _ _ _) = True"
| "isFreshLog g _ = False"

text \<open>
  Example inputs. \<open>exIdent\<close> is \<^verbatim>\<open>define i32 @ident(i32 %x) { ret i32 %x }\<close>,
  \<open>exAdd\<close> is \<^verbatim>\<open>define i32 @add(i32 %a, i32 %b) { %s = add i32 %a, %b  ret i32 %s }\<close>,
  \<open>exWide\<close> is \<^verbatim>\<open>define void @wide(i128 %x) { ret void }\<close>,
  \<open>exHelper\<close> is \<^verbatim>\<open>define void @__logger_flush() { ret void }\<close>,
  \<open>exAnon\<close> is a defined function with an empty name, and \<open>exAbs\<close> has one branching
  block and two returning blocks.
\<close>

definition exampleModule :: module where
  "exampleModule =
     \<lparr>functionList =
        [(''ident'', (IntegerTy 32, [IntegerTy 32], False)),
         (''add'', (IntegerTy 32, [IntegerTy 32, IntegerTy 32], False)),
         (''wide'', (VoidTy, [IntegerTy 128], False)),
         (''__logger_flush'', (VoidTy, [], False)),
         (''abs'', (IntegerTy 32, [IntegerTy 32], False))],
      globalList = []\<rparr>"

definition exIdent :: func where
  "exIdent =
     \<lparr>fname = ''ident'', callingConv = 0, returnType = IntegerTy 32, args = [IntegerTy 32],
      blocks = [[ReturnInst (Some (Argument 0 (IntegerTy 32)))]]\<rparr>"

definition exAdd :: func where
  "exAdd =
     \<lparr>fname = ''add'', callingConv = 0, returnType = IntegerTy 32,
      args = [IntegerTy 32, IntegerTy 32],
      blocks = [[Other 0, ReturnInst (Some (Local 0 (IntegerTy 32)))]]\<rparr>"

definition exWide :: func where
  "exWide =
     \<lparr>fname = ''wide'', callingConv = 0, returnType = VoidTy, args = [IntegerTy 128],
      blocks = [[ReturnInst None]]\<rparr>"

definition exHelper :: func where
  "exHelper =
     \<lparr>fname = ''__logger_flush'', callingConv = 0, returnType = VoidTy, args = [],
      blocks = [[ReturnInst None]]\<rparr>"

definition exAnon :: func where
  "exAnon =
     \<lparr>fname = [], callingConv = 0, returnType = VoidTy, args = [],
      blocks = [[ReturnInst None]]\<rparr>"

definition exAbs :: func where
  "exAbs =
     \<lparr>fname = ''abs'', callingConv = 0, returnType = IntegerTy 32, args = [IntegerTy 32],
      blocks =
        [[Other 0, Terminator 0 [1, 2]],
         [ReturnInst (Some (Argument 0 (IntegerTy 32)))],
         [Other 1, ReturnInst (Some (Local 1 (IntegerTy 32)))]]\<rparr>"

section \<open>The pass computes the closed form\<close>

lemma Insert_insertAt: "Insert I (b, p) F = ((b, Suc p), insertAt b p [I] F)"
  by (simp add: Insert_def insertAt_def)

lemma insertAt_Nil: "insertAt b p [] F = F"
  by (simp add: insertAt_def)

lemma list_insert_after:
  "(xs[b := take p (xs ! b) @ Is @ drop p (xs ! b)])
     [b := take (p + length Is) (xs[b := take p (xs ! b) @ Is @ drop p (xs ! b)] ! b) @ Js @
           drop (p + length Is) (xs[b := take p (xs ! b) @ Is @ drop p (xs ! b)] ! b)] =
   xs[b := take p (xs ! b) @ (Is @ Js) @ drop p (xs ! b)]"
proof (cases "b < length xs")
  case True
  then show ?thesis
    by (cases "p \<le> length (xs ! b)") (simp_all add: min_def)
next
  case False
  then have "length xs \<le> b" by simp
  then show ?thesis by (simp add: list_update_beyond)
qed

lemma insertAt_after:
  "insertAt b (p + length Is) Js (insertAt b p Is F) = insertAt b p (Is @ Js) F"
  using list_insert_after [of "blocks F" b p Is Js] by (simp add: insertAt_def)

lemma insertAt_before:
  "b < length (blocks F) \<Longrightarrow> p \<le> length (blocks F ! b) \<Longrightarrow>
     insertAt b p Js (insertAt b p Is F) = insertAt b p (Js @ Is) F"
  by (simp add: insertAt_def)

lemma CreateCall_insertAt:
  "CreateCall C Ops (b, p) F = ((b, Suc p), insertAt b p [CallInst C Ops] F)"
  by (simp add: CreateCall_def Insert_insertAt)

lemma CreateCast_insertAt:
  "CreateCast Op V T (b, p) F =
     (castValue Op V T, (b, p + length (castInstrs Op V T)), insertAt b p (castInstrs Op V T) F)"
  by (simp add: CreateCast_def castValue_def castInstrs_def Insert_insertAt insertAt_Nil)

lemma getOrInsertPrintf_eq: "getOrInsertPrintf M = (''printf'', declarePrintf M)"
  by (simp add: declarePrintf_def getOrInsertPrintf_def getOrInsertFunction_def)

lemma CreateGlobalStringPtr_eq:
  "CreateGlobalStringPtr Str Name M = (GlobalString (length (globalList M)), addGlobal Name Str M)"
  by (simp add: CreateGlobalStringPtr_def addGlobal_def)

lemma globalList_declarePrintf [simp]: "globalList (declarePrintf M) = globalList M"
  by (simp add: declarePrintf_def getOrInsertPrintf_def getOrInsertFunction_def)

lemma insertAt_two:
  "insertAt b (p + length Is) [J] (insertAt b p Is F) = insertAt b p (Is @ [J]) F"
  by (rule insertAt_after)

lemma emitPrintfEnter_eq:
  "emitPrintfEnter (b, p) M F fn =
     ((b, Suc p), addGlobal ''__logger.fmt.enter'' ''>> %s\<newline>'' (declarePrintf M),
      insertAt b p [CallInst ''printf'' [GlobalString (length (globalList M)), fn]] F)"
  by (simp add: emitPrintfEnter_def getOrInsertPrintf_eq CreateGlobalStringPtr_eq
      CreateCall_insertAt)

lemma isDoubleTy_iff: "isDoubleTy T \<longleftrightarrow> T = DoubleTy"
  by (cases T) simp_all

lemma FPExt_or_self:
  "(if isDoubleTy (getType V) then (V, (b, p), F) else CreateFPExt V DoubleTy (b, p) F) =
     (castValue FPExt V DoubleTy, (b, p + length (castInstrs FPExt V DoubleTy)),
      insertAt b p (castInstrs FPExt V DoubleTy) F)"
  by (simp add: isDoubleTy_iff CreateFPExt_def CreateCast_insertAt)
     (simp add: castValue_def castInstrs_def insertAt_Nil)

lemma ZExtOrBitCast_i64:
  "CreateZExtOrBitCast V (IntegerTy 64) (b, p) F =
     (castValue (zextOp (getType V)) V (IntegerTy 64),
      (b, p + length (castInstrs (zextOp (getType V)) V (IntegerTy 64))),
      insertAt b p (castInstrs (zextOp (getType V)) V (IntegerTy 64)) F)"
  by (simp add: CreateZExtOrBitCast_def CreateCast_insertAt zextOp_def)

lemma PointerCast_p0:
  "CreatePointerCast V (PointerTy 0) (b, p) F =
     (castValue (ptrOp (getType V)) V (PointerTy 0),
      (b, p + length (castInstrs (ptrOp (getType V)) V (PointerTy 0))),
      insertAt b p (castInstrs (ptrOp (getType V)) V (PointerTy 0)) F)"
  by (simp add: CreatePointerCast_def CreateCast_insertAt ptrOp_def)

lemmas emit_simps = getOrInsertPrintf_eq CreateGlobalStringPtr_eq CreateCall_insertAt
  insertAt_two

lemma emitPrintfArgInt_eq:
  "emitPrintfArgInt (b, p) M F fn i V =
     ((b, Suc (p + length (castInstrs (zextOp (getType V)) V (IntegerTy 64)))),
      addGlobal ''__logger.fmt.arg.i'' ''   %s(arg%d)=%lld\<newline>'' (declarePrintf M),
      insertAt b p (castInstrs (zextOp (getType V)) V (IntegerTy 64) @
        [CallInst ''printf'' [GlobalString (length (globalList M)), fn, ConstantInt 32 (int i),
           castValue (zextOp (getType V)) V (IntegerTy 64)]]) F)"
  unfolding emitPrintfArgInt_def ZExtOrBitCast_i64 by (simp add: emit_simps)

lemma emitPrintfArgFloat_eq:
  "emitPrintfArgFloat (b, p) M F fn i V =
     ((b, Suc (p + length (castInstrs FPExt V DoubleTy))),
      addGlobal ''__logger.fmt.arg.f'' ''   %s(arg%d)=%f\<newline>'' (declarePrintf M),
      insertAt b p (castInstrs FPExt V DoubleTy @
        [CallInst ''printf'' [GlobalString (length (globalList M)), fn, ConstantInt 32 (int i),
           castValue FPExt V DoubleTy]]) F)"
  unfolding emitPrintfArgFloat_def FPExt_or_self by (simp add: emit_simps)

lemma emitPrintfArgPtr_eq:
  "emitPrintfArgPtr (b, p) M F fn i V =
     ((b, Suc (p + length (castInstrs (ptrOp (getType V)) V (PointerTy 0)))),
      addGlobal ''__logger.fmt.arg.p'' ''   %s(arg%d)=%p\<newline>'' (declarePrintf M),
      insertAt b p (castInstrs (ptrOp (getType V)) V (PointerTy 0) @
        [CallInst ''printf'' [GlobalString (length (globalList M)), fn, ConstantInt 32 (int i),
           castValue (ptrOp (getType V)) V (PointerTy 0)]]) F)"
  unfolding emitPrintfArgPtr_def PointerCast_p0 by (simp add: emit_simps)

lemma emitPrintfAggregate_eq:
  "emitPrintfAggregate (b, p) M F fn i =
     ((b, Suc p),
      addGlobal ''__logger.fmt.arg.agg'' ''   %s(arg%d)=(aggregate)\<newline>'' (declarePrintf M),
      insertAt b p
        [CallInst ''printf'' [GlobalString (length (globalList M)), fn, ConstantInt 32 (int i)]] F)"
  unfolding emitPrintfAggregate_def by (simp add: emit_simps)

lemma emitPrintfRetVoid_eq:
  "emitPrintfRetVoid (b, p) M F fn =
     ((b, Suc p),
      addGlobal ''__logger.fmt.ret.v'' ''<< %s returns void\<newline>'' (declarePrintf M),
      insertAt b p [CallInst ''printf'' [GlobalString (length (globalList M)), fn]] F)"
  unfolding emitPrintfRetVoid_def by (simp add: emit_simps)

lemma emitPrintfRetInt_eq:
  "emitPrintfRetInt (b, p) M F fn V =
     ((b, Suc (p + length (castInstrs (zextOp (getType V)) V (IntegerTy 64)))),
      addGlobal ''__logger.fmt.ret.i'' ''<< %s returns %lld\<newline>'' (declarePrintf M),
      insertAt b p (castInstrs (zextOp (getType V)) V (IntegerTy 64) @
        [CallInst ''printf'' [GlobalString (length (globalList M)), fn,
           castValue (zextOp (getType V)) V (IntegerTy 64)]]) F)"
  unfolding emitPrintfRetInt_def ZExtOrBitCast_i64 by (simp add: emit_simps)

lemma emitPrintfRetFloat_eq:
  "emitPrintfRetFloat (b, p) M F fn V =
     ((b, Suc (p + length (castInstrs FPExt V DoubleTy))),
      addGlobal ''__logger.fmt.ret.f'' ''<< %s returns %f\<newline>'' (declarePrintf M),
      insertAt b p (castInstrs FPExt V DoubleTy @
        [CallInst ''printf'' [GlobalString (length (globalList M)), fn,
           castValue FPExt V DoubleTy]]) F)"
  unfolding emitPrintfRetFloat_def FPExt_or_self by (simp add: emit_simps)

lemma emitPrintfRetPtr_eq:
  "emitPrintfRetPtr (b, p) M F fn V =
     ((b, Suc (p + length (castInstrs (ptrOp (getType V)) V (PointerTy 0)))),
      addGlobal ''__logger.fmt.ret.p'' ''<< %s returns %p\<newline>'' (declarePrintf M),
      insertAt b p (castInstrs (ptrOp (getType V)) V (PointerTy 0) @
        [CallInst ''printf'' [GlobalString (length (globalList M)), fn,
           castValue (ptrOp (getType V)) V (PointerTy 0)]]) F)"
  unfolding emitPrintfRetPtr_def PointerCast_p0 by (simp add: emit_simps)

lemmas emit_eqs = emitPrintfArgInt_eq emitPrintfArgFloat_eq emitPrintfArgPtr_eq
  emitPrintfAggregate_eq emitPrintfRetVoid_eq emitPrintfRetInt_eq emitPrintfRetFloat_eq
  emitPrintfRetPtr_eq

lemma argStep_eq:
  "(if isPointerTy T then emitPrintfArgPtr (b, p) M F fn i (Argument i T)
    else if isIntegerTy T then emitPrintfArgInt (b, p) M F fn i (Argument i T)
    else if isFloatingPointTy T then emitPrintfArgFloat (b, p) M F fn i (Argument i T)
    else emitPrintfAggregate (b, p) M F fn i) =
   ((b, p + length (argLog fn (length (globalList M)) i T)),
    addGlobal (fst (argFormat T)) (snd (argFormat T)) (declarePrintf M),
    insertAt b p (argLog fn (length (globalList M)) i T) F)"
  unfolding emit_eqs
  by (simp add: argLog_def argFormat_def widen_def widenInstrs_def widenValue_def)

lemma insertAt_last:
  assumes "b < length (blocks F)" "blocks F ! b \<noteq> []"
  shows "blocks (insertAt b (length (blocks F ! b) - 1) Is F) =
           (blocks F)[b := butlast (blocks F ! b) @ Is @ [last (blocks F ! b)]]"
proof -
  have "take (length xs - 1) xs = butlast xs \<and> drop (length xs - 1) xs = [last xs]"
    if "xs \<noteq> []" for xs :: "instr list"
    using that by (cases xs rule: rev_cases) simp_all
  with assms show ?thesis by (simp add: insertAt_def)
qed

lemma emitReturn_eq:
  assumes "last (blocks F ! b) = ReturnInst rv"
  shows "emitReturn fn b M F =
     (addGlobal (fst (retFormat rv)) (snd (retFormat rv)) (declarePrintf M),
      insertAt b (length (blocks F ! b) - 1) (retLog fn (length (globalList M)) rv) F)"
proof (cases rv)
  case None
  with assms show ?thesis
    by (simp add: emitReturn_def emitPrintfRetVoid_eq)
next
  case (Some V)
  with assms show ?thesis
    by (simp add: emitReturn_def Let_def emit_eqs emit_simps widen_def widenInstrs_def
        widenValue_def)
qed

lemma getFirstInsertionPt_Cons:
  "getFirstInsertionPt (I # Is) =
     (if isPHINode I then Suc (getFirstInsertionPt Is) else if isEHPad I then 1 else 0)"
  by (simp add: getFirstInsertionPt_def split: option.splits)

lemma getFirstInsertionPt_Nil: "getFirstInsertionPt [] = 0"
  by (simp add: getFirstInsertionPt_def)

lemma getFirstInsertionPt_stable:
  assumes "\<forall>I \<in> set Is. \<not> isPHINode I \<and> \<not> isEHPad I"
  shows "getFirstInsertionPt (take (getFirstInsertionPt BB) BB @ Is @ drop (getFirstInsertionPt BB) BB) =
           getFirstInsertionPt BB"
proof (induction BB)
  case Nil
  from assms show ?case
    by (cases Is) (simp_all add: getFirstInsertionPt_Nil getFirstInsertionPt_Cons)
next
  case (Cons I BB)
  from assms have "Is \<noteq> [] \<Longrightarrow> getFirstInsertionPt (Is @ Js) = 0" for Js
    by (cases Is) (simp_all add: getFirstInsertionPt_Cons)
  with Cons show ?case
    by (cases "Is = []") (simp_all add: getFirstInsertionPt_Cons)
qed

lemma getFirstInsertionPt_less:
  "BB \<noteq> [] \<Longrightarrow> isTerminator (last BB) \<Longrightarrow> getFirstInsertionPt BB < length BB"
proof (induction BB)
  case Nil
  then show ?case by simp
next
  case (Cons I BB)
  then show ?case
    by (cases I; cases "BB = []") (simp_all add: getFirstInsertionPt_Cons)
qed

lemma addGlobal_addGlobals: "addGlobal n s M = addGlobals [(n, s)] M"
  by (simp add: addGlobal_def addGlobals_def)

lemma addGlobals_addGlobals: "addGlobals gs (addGlobals hs M) = addGlobals (hs @ gs) M"
  by (simp add: addGlobals_def)

lemma addGlobals_Nil: "addGlobals [] M = M"
  by (simp add: addGlobals_def)

lemma globalList_addGlobals: "globalList (addGlobals gs M) = globalList M @ gs"
  by (simp add: addGlobals_def)

lemma functionList_addGlobals: "functionList (addGlobals gs M) = functionList M"
  by (simp add: addGlobals_def)

lemma declarePrintf_addGlobals: "declarePrintf (addGlobals gs M) = addGlobals gs (declarePrintf M)"
  by (simp add: declarePrintf_def getOrInsertPrintf_def getOrInsertFunction_def addGlobals_def)

lemma declarePrintf_idem: "declarePrintf (declarePrintf M) = declarePrintf M"
  by (simp add: declarePrintf_def getOrInsertPrintf_def getOrInsertFunction_def)

lemma castInstrs_plain: "I \<in> set (castInstrs Op V T) \<Longrightarrow> I = CastInst Op V T"
  by (simp add: castInstrs_def split: if_splits)

lemma widenInstrs_plain: "I \<in> set (widenInstrs V) \<Longrightarrow> \<exists>Op T. I = CastInst Op V T"
  by (auto simp: widenInstrs_def split: option.splits dest: castInstrs_plain)

lemma argLog_plain:
  "I \<in> set (argLog fn g i T) \<Longrightarrow> (\<exists>Op V U. I = CastInst Op V U) \<or> (\<exists>Ops. I = CallInst ''printf'' Ops)"
  by (auto simp: argLog_def dest: widenInstrs_plain)

lemma retLog_plain:
  "I \<in> set (retLog fn g rv) \<Longrightarrow> (\<exists>Op V U. I = CastInst Op V U) \<or> (\<exists>Ops. I = CallInst ''printf'' Ops)"
  by (cases rv) (auto dest: widenInstrs_plain)

lemma argLogs_plain:
  "I \<in> set (argLogs fn g i Ts) \<Longrightarrow> (\<exists>Op V U. I = CastInst Op V U) \<or> (\<exists>Ops. I = CallInst ''printf'' Ops)"
  by (induction Ts arbitrary: g i) (auto dest: argLog_plain)

lemma argLoop_eq:
  assumes "blocks F \<noteq> []"
    and "getFirstInsertionPt (blocks F ! 0) < length (blocks F ! 0)"
    and "declarePrintf M = M"
  shows "argLoop fn Ts i M F =
           Inr (addGlobals (map argFormat Ts) M,
                insertAt 0 (getFirstInsertionPt (blocks F ! 0)) (argLogs fn (length (globalList M)) i Ts) F)"
  using assms
proof (induction Ts arbitrary: i M F)
  case Nil
  then show ?case by (simp add: addGlobals_Nil insertAt_Nil)
next
  case (Cons T Ts)
  define p where "p = getFirstInsertionPt (blocks F ! 0)"
  define g where "g = length (globalList M)"
  define M1 where "M1 = addGlobals [argFormat T] M"
  define F1 where "F1 = insertAt 0 p (argLog fn g i T) F"
  have plain: "\<forall>I \<in> set (argLog fn g i T). \<not> isPHINode I \<and> \<not> isEHPad I"
    using argLog_plain by fastforce
  have b1: "blocks F1 ! 0 = take p (blocks F ! 0) @ argLog fn g i T @ drop p (blocks F ! 0)"
    using Cons.prems(1) by (simp add: F1_def insertAt_def)
  have ne1: "blocks F1 \<noteq> []"
    using Cons.prems(1) by (simp add: F1_def insertAt_def)
  have p1: "getFirstInsertionPt (blocks F1 ! 0) = p"
    unfolding b1 p_def by (rule getFirstInsertionPt_stable [OF plain])
  have lt1: "getFirstInsertionPt (blocks F1 ! 0) < length (blocks F1 ! 0)"
    unfolding p1 using Cons.prems(2) by (simp add: b1 p_def)
  have d1: "declarePrintf M1 = M1"
    using Cons.prems(3) by (simp add: M1_def declarePrintf_addGlobals)
  have step: "argLoop fn (T # Ts) i M F = argLoop fn Ts (Suc i) M1 F1"
    using Cons.prems(2,3)
    by (simp add: getEntryBlock_def Let_def argStep_eq p_def g_def M1_def F1_def
        addGlobal_addGlobals del: argLoop.simps(1))
  have "argLoop fn Ts (Suc i) M1 F1 =
          Inr (addGlobals (map argFormat Ts) M1,
               insertAt 0 p (argLogs fn (length (globalList M1)) (Suc i) Ts) F1)"
    using Cons.IH [OF ne1 lt1 d1] by (simp add: p1)
  also have "addGlobals (map argFormat Ts) M1 = addGlobals (map argFormat (T # Ts)) M"
    by (simp add: M1_def addGlobals_addGlobals)
  also have "length (globalList M1) = Suc g"
    by (simp add: M1_def g_def globalList_addGlobals)
  also have "insertAt 0 p (argLogs fn (Suc g) (Suc i) Ts) F1 =
               insertAt 0 p (argLogs fn g i (T # Ts)) F"
    unfolding F1_def using Cons.prems(1,2)
    by (simp add: insertAt_before p_def)
  finally show ?case
    using step by (simp add: p_def g_def)
qed

lemma retLoop_collectReturns:
  assumes "\<forall>BB \<in> set BBs. BB \<noteq> [] \<and> isTerminator (last BB)"
    and "declarePrintf M = M"
  shows "\<exists>Rs. collectReturns BBs (length pre) = Inr Rs \<and>
           retLoop fn Rs M (F\<lparr>blocks := pre @ BBs\<rparr>) =
             (addGlobals (retGlobals BBs) M,
              F\<lparr>blocks := pre @ instrReturns fn (length (globalList M)) BBs\<rparr>)"
  using assms
proof (induction BBs arbitrary: pre M)
  case Nil
  then show ?case by (simp add: addGlobals_Nil)
next
  case (Cons BB BBs)
  from Cons.prems have ne: "BB \<noteq> []" and tm: "isTerminator (last BB)"
    and rest: "\<forall>BB \<in> set BBs. BB \<noteq> [] \<and> isTerminator (last BB)"
    by simp_all
  have gt: "getTerminator BB = Some (last BB)"
    using ne tm by (simp add: getTerminator_def)
  show ?case
  proof (cases "last BB")
    case (ReturnInst rv)
    define BB' where "BB' = butlast BB @ retLog fn (length (globalList M)) rv @ [last BB]"
    define M1 where "M1 = addGlobals [retFormat rv] M"
    have d1: "declarePrintf M1 = M1"
      using Cons.prems(2) by (simp add: M1_def declarePrintf_addGlobals)
    obtain Rs where Rs: "collectReturns BBs (length (pre @ [BB'])) = Inr Rs"
      and loop: "retLoop fn Rs M1 (F\<lparr>blocks := (pre @ [BB']) @ BBs\<rparr>) =
             (addGlobals (retGlobals BBs) M1,
              F\<lparr>blocks := (pre @ [BB']) @ instrReturns fn (length (globalList M1)) BBs\<rparr>)"
      using Cons.IH [OF rest d1, of "pre @ [BB']"] by blast
    let ?F = "F\<lparr>blocks := pre @ BB # BBs\<rparr>"
    have nth: "blocks ?F ! length pre = BB"
      by simp
    have "insertAt (length pre) (length BB - 1) (retLog fn (length (globalList M)) rv) ?F =
            ?F\<lparr>blocks := blocks (insertAt (length pre) (length BB - 1) (retLog fn (length (globalList M)) rv) ?F)\<rparr>"
      by (simp add: insertAt_def)
    also have "blocks (insertAt (length pre) (length BB - 1) (retLog fn (length (globalList M)) rv) ?F) =
            (pre @ [BB']) @ BBs"
      using insertAt_last [of "length pre" ?F "retLog fn (length (globalList M)) rv"] ne
      by (simp add: BB'_def)
    finally have ins: "insertAt (length pre) (length BB - 1) (retLog fn (length (globalList M)) rv) ?F =
            F\<lparr>blocks := (pre @ [BB']) @ BBs\<rparr>"
      by simp
    have er: "emitReturn fn (length pre) M ?F = (M1, F\<lparr>blocks := (pre @ [BB']) @ BBs\<rparr>)"
      using emitReturn_eq [of ?F "length pre" rv fn M] ReturnInst Cons.prems(2) ins
      by (simp add: M1_def addGlobal_addGlobals)
    have "collectReturns (BB # BBs) (length pre) = Inr (length pre # Rs)"
      using gt Rs ReturnInst by simp
    moreover have "retLoop fn (length pre # Rs) M ?F =
        (addGlobals (retGlobals (BB # BBs)) M,
         F\<lparr>blocks := pre @ instrReturns fn (length (globalList M)) (BB # BBs)\<rparr>)"
      using er loop ReturnInst
      by (simp add: M1_def addGlobals_addGlobals globalList_addGlobals BB'_def)
    ultimately show ?thesis by blast
  next
    case (Terminator n bs)
    obtain Rs where Rs: "collectReturns BBs (length (pre @ [BB])) = Inr Rs"
      and loop: "retLoop fn Rs M (F\<lparr>blocks := (pre @ [BB]) @ BBs\<rparr>) =
             (addGlobals (retGlobals BBs) M,
              F\<lparr>blocks := (pre @ [BB]) @ instrReturns fn (length (globalList M)) BBs\<rparr>)"
      using Cons.IH [OF rest Cons.prems(2), of "pre @ [BB]"] by blast
    have "collectReturns (BB # BBs) (length pre) = Inr Rs"
      using gt Rs Terminator by simp
    moreover have "retLoop fn Rs M (F\<lparr>blocks := pre @ BB # BBs\<rparr>) =
        (addGlobals (retGlobals (BB # BBs)) M,
         F\<lparr>blocks := pre @ instrReturns fn (length (globalList M)) (BB # BBs)\<rparr>)"
      using loop Terminator by simp
    ultimately show ?thesis by blast
  qed (use tm in simp_all)
qed

lemma retGlobals_last:
  "map last BBs = map last BBs' \<Longrightarrow> retGlobals BBs = retGlobals BBs'"
proof (induction BBs arbitrary: BBs')
  case Nil
  then show ?case by simp
next
  case (Cons BB BBs)
  then obtain CC CCs where "BBs' = CC # CCs" "last BB = last CC" "map last BBs = map last CCs"
    by (cases BBs') auto
  with Cons.IH [of CCs] show ?case by (simp split: instr.splits)
qed

lemma not_skippable_blocks: "\<not> isSkippableFunction F \<Longrightarrow> blocks F \<noteq> []"
  by (auto simp: isSkippableFunction_def isDeclaration_def)

lemma entry_insert_blocks:
  assumes "blocks F \<noteq> []" "p < length (blocks F ! 0)"
  shows "map last (blocks (insertAt 0 p Is F)) = map last (blocks F)"
    and "wellFormed F \<Longrightarrow> wellFormed (insertAt 0 p Is F)"
proof -
  obtain e rest where F: "blocks F = e # rest"
    using assms(1) by (cases "blocks F") auto
  with assms(2) have p: "p < length e" by simp
  show "map last (blocks (insertAt 0 p Is F)) = map last (blocks F)"
    using F p by (simp add: insertAt_def)
  show "wellFormed (insertAt 0 p Is F)" if "wellFormed F"
    using that F p by (simp add: insertAt_def wellFormed_def)
qed

lemma entry_insertion_point:
  assumes "wellFormed F" "blocks F \<noteq> []"
  shows "getFirstInsertionPt (blocks F ! 0) < length (blocks F ! 0)"
proof -
  have "blocks F ! 0 \<in> set (blocks F)"
    using assms(2) by simp
  with assms(1) show ?thesis
    by (simp add: wellFormed_def getFirstInsertionPt_less)
qed

lemma run_eq:
  assumes wf: "wellFormed F" and ns: "\<not> isSkippableFunction F"
  shows "run M F =
           Inr (PreservedAnalyses_none,
                addGlobals (instrumentedGlobals F) (declarePrintf M),
                F\<lparr>blocks := instrumentedBlocks (length (globalList M)) F\<rparr>)"
proof -
  define g where "g = length (globalList M)"
  define p where "p = getFirstInsertionPt (blocks F ! 0)"
  define fn where "fn = GlobalString g"
  define enter where "enter = CallInst ''printf'' [GlobalString (Suc g), fn]"
  define M2 where "M2 = addGlobals [(''__logger.fn.'' @ fname F, fname F),
                          (''__logger.fmt.enter'', ''>> %s\<newline>'')] (declarePrintf M)"
  define F1 where "F1 = insertAt 0 p [enter] F"
  define F3 where "F3 = insertAt 0 p (entryLog fn (Suc g) (args F)) F"
  have ne: "blocks F \<noteq> []"
    using ns by (rule not_skippable_blocks)
  have lt: "p < length (blocks F ! 0)"
    unfolding p_def using wf ne by (rule entry_insertion_point)
  have name: "getFunctionNameGlobal M F = (fn, addGlobals [(''__logger.fn.'' @ fname F, fname F)] M)"
    by (simp add: getFunctionNameGlobal_def CreateGlobalStringPtr_eq addGlobal_addGlobals fn_def g_def)
  have ent: "emitPrintfEnter (0, p) (addGlobals [(''__logger.fn.'' @ fname F, fname F)] M) F fn =
               ((0, Suc p), M2, F1)"
    by (simp add: emitPrintfEnter_eq addGlobal_addGlobals declarePrintf_addGlobals
        addGlobals_addGlobals globalList_addGlobals M2_def F1_def enter_def g_def)
  have ne1: "blocks F1 \<noteq> []"
    using ne by (simp add: F1_def insertAt_def)
  have b1: "blocks F1 ! 0 = take p (blocks F ! 0) @ [enter] @ drop p (blocks F ! 0)"
    using ne by (simp add: F1_def insertAt_def)
  have p1: "getFirstInsertionPt (blocks F1 ! 0) = p"
    unfolding b1 p_def by (rule getFirstInsertionPt_stable) (simp add: enter_def)
  have lt1: "getFirstInsertionPt (blocks F1 ! 0) < length (blocks F1 ! 0)"
    unfolding p1 using lt by (simp add: b1)
  have d2: "declarePrintf M2 = M2"
    by (simp add: M2_def declarePrintf_addGlobals declarePrintf_idem)
  have g2: "length (globalList M2) = g + 2"
    by (simp add: M2_def globalList_addGlobals g_def)
  have "insertAt 0 p (argLogs fn (g + 2) 0 (args F)) F1 = F3"
    unfolding F1_def F3_def entryLog_def using ne lt by (simp add: insertAt_before enter_def)
  then have args: "argLoop fn (args F) 0 M2 F1 = Inr (addGlobals (map argFormat (args F)) M2, F3)"
    using argLoop_eq [OF ne1 lt1 d2, of fn "args F" 0] by (simp add: p1 g2)
  define M3 where "M3 = addGlobals (map argFormat (args F)) M2"
  have d3: "declarePrintf M3 = M3"
    using d2 by (simp add: M3_def declarePrintf_addGlobals)
  have g3: "length (globalList M3) = g + 2 + length (args F)"
    using g2 by (simp add: M3_def globalList_addGlobals)
  have wf3: "wellFormed F3" and last3: "map last (blocks F3) = map last (blocks F)"
    unfolding F3_def using entry_insert_blocks [OF ne lt] wf by simp_all
  have F3b: "F3\<lparr>blocks := bs\<rparr> = F\<lparr>blocks := bs\<rparr>" for bs
    by (simp add: F3_def insertAt_def)
  obtain Rs where Rs: "collectReturns (blocks F3) 0 = Inr Rs"
    and loop: "retLoop fn Rs M3 F3 =
        (addGlobals (retGlobals (blocks F3)) M3,
         F3\<lparr>blocks := instrReturns fn (length (globalList M3)) (blocks F3)\<rparr>)"
    using retLoop_collectReturns [of "blocks F3" M3 "[]" fn F3] wf3 d3
    by (auto simp: wellFormed_def)
  have "retLoop fn Rs M3 F3 =
          (addGlobals (instrumentedGlobals F) (declarePrintf M),
           F\<lparr>blocks := instrumentedBlocks g F\<rparr>)"
    unfolding loop g3 F3b retGlobals_last [OF last3]
    by (simp add: M3_def M2_def addGlobals_addGlobals
        instrumentedGlobals_def instrumentedBlocks_def F3_def p_def fn_def)
  then show ?thesis
    using ns lt name ent args Rs
    by (simp add: run_def getEntryBlock_def Let_def p_def [symmetric] M3_def g_def)
qed

lemma retIndex_0: "retIndex BBs 0 = 0"
  by (simp add: retIndex_def)

lemma retIndex_Suc:
  "retIndex (BB # BBs) (Suc b) = (if isReturnInst (last BB) then Suc (retIndex BBs b) else retIndex BBs b)"
  by (simp add: retIndex_def)

lemma retIndex_last: "map last BBs = map last BBs' \<Longrightarrow> retIndex BBs b = retIndex BBs' b"
  by (simp add: retIndex_def take_map [symmetric])

lemma instrReturns_length: "length (instrReturns fn g BBs) = length BBs"
  by (induction BBs arbitrary: g) (simp_all split: instr.splits)

lemma instrReturns_nth:
  "b < length BBs \<Longrightarrow> BBs ! b \<noteq> [] \<Longrightarrow>
     instrReturns fn g BBs ! b =
       butlast (BBs ! b) @ returnLog fn (g + retIndex BBs b) (last (BBs ! b)) @ [last (BBs ! b)]"
proof (induction BBs arbitrary: g b)
  case Nil
  then show ?case by simp
next
  case (Cons BB BBs)
  show ?case
  proof (cases b)
    case 0
    with Cons.prems have "butlast BB @ [last BB] = BB"
      by simp
    then show ?thesis
      using 0 by (cases "last BB") (simp_all add: retIndex_0 returnLog_def)
  next
    case (Suc c)
    with Cons.prems Cons.IH [of c] show ?thesis
      by (simp add: retIndex_Suc split: instr.splits)
  qed
qed

lemma retGlobals_length: "length (retGlobals BBs) = retIndex BBs (length BBs)"
  by (induction BBs) (simp_all add: retIndex_0 retIndex_Suc split: instr.splits)

lemma retGlobals_nth:
  "b < length BBs \<Longrightarrow> last (BBs ! b) = ReturnInst rv \<Longrightarrow>
     retIndex BBs b < length (retGlobals BBs) \<and> retGlobals BBs ! retIndex BBs b = retFormat rv"
proof (induction BBs arbitrary: b)
  case Nil
  then show ?case by simp
next
  case (Cons BB BBs)
  show ?case
  proof (cases b)
    case 0
    with Cons.prems show ?thesis
      by (simp add: retIndex_0)
  next
    case (Suc c)
    with Cons.prems Cons.IH [of c] show ?thesis
      by (simp add: retIndex_Suc split: instr.splits)
  qed
qed

lemma insertedOnly_Cons:
  "insertedOnly P xs (y # ys) \<longleftrightarrow>
     (\<exists>xs'. xs = y # xs' \<and> insertedOnly P xs' ys) \<or> (P y \<and> insertedOnly P xs ys)"
  by (cases xs) auto

lemma insertedOnly_refl: "insertedOnly P xs xs"
  by (induction xs) simp_all

lemma insertedOnly_Nil: "insertedOnly P [] ys \<longleftrightarrow> (\<forall>y \<in> set ys. P y)"
  by (induction ys) simp_all

lemma insertedOnly_append:
  "insertedOnly P xs xs' \<Longrightarrow> insertedOnly P ys ys' \<Longrightarrow> insertedOnly P (xs @ ys) (xs' @ ys')"
proof (induction xs' arbitrary: xs)
  case Nil
  then show ?case by simp
next
  case (Cons a xs')
  then show ?case
    by (auto simp: insertedOnly_Cons)
qed

lemma insertedOnly_insert:
  "\<forall>y \<in> set Is. P y \<Longrightarrow> insertedOnly P (xs @ ys) (xs @ Is @ ys)"
  using insertedOnly_append [OF insertedOnly_refl [of P xs]
      insertedOnly_append [of P "[]" Is ys ys]]
  by (simp add: insertedOnly_Nil insertedOnly_refl)

lemma instrumentedBlocks_nth:
  assumes wf: "wellFormed F" and b: "b < length (blocks F)"
  shows "instrumentedBlocks g F ! b =
           (if b = 0
            then take (getFirstInsertionPt (blocks F ! 0)) (blocks F ! 0) @
                 entryLog (GlobalString g) (Suc g) (args F) @
                 drop (getFirstInsertionPt (blocks F ! 0)) (butlast (blocks F ! 0))
            else butlast (blocks F ! b)) @
           returnLog (GlobalString g) (g + 2 + length (args F) + retIndex (blocks F) b)
             (last (blocks F ! b)) @
           [last (blocks F ! b)]"
proof -
  define p where "p = getFirstInsertionPt (blocks F ! 0)"
  define X where "X = entryLog (GlobalString g) (Suc g) (args F)"
  define F3 where "F3 = insertAt 0 p X F"
  have ne: "blocks F \<noteq> []"
    using b by auto
  have lt: "p < length (blocks F ! 0)"
    unfolding p_def using wf ne by (rule entry_insertion_point)
  have last3: "map last (blocks F3) = map last (blocks F)"
    unfolding F3_def using entry_insert_blocks(1) [OF ne lt] .
  have wf3: "wellFormed F3"
    unfolding F3_def using entry_insert_blocks(2) [OF ne lt wf] .
  have len3: "length (blocks F3) = length (blocks F)"
    by (simp add: F3_def insertAt_def)
  have b3: "blocks F3 ! b = (if b = 0 then take p (blocks F ! 0) @ X @ drop p (blocks F ! 0)
                             else blocks F ! b)"
    using b ne by (auto simp: F3_def insertAt_def)
  have ne3: "blocks F3 ! b \<noteq> []"
    using wf3 b len3 by (simp add: wellFormed_def)
  have l3: "last (blocks F3 ! b) = last (blocks F ! b)"
    using last3 b len3 by (metis length_map nth_map)
  have bl: "butlast (take p (blocks F ! 0) @ X @ drop p (blocks F ! 0)) =
              take p (blocks F ! 0) @ X @ drop p (butlast (blocks F ! 0))"
    using lt by (simp add: butlast_append drop_butlast)
  have "instrumentedBlocks g F ! b =
          butlast (blocks F3 ! b) @
          returnLog (GlobalString g) (g + 2 + length (args F) + retIndex (blocks F3) b)
            (last (blocks F3 ! b)) @ [last (blocks F3 ! b)]"
    unfolding instrumentedBlocks_def
    using instrReturns_nth [of b "blocks F3" "GlobalString g" "g + 2 + length (args F)"] b len3 ne3
    by (simp add: F3_def p_def X_def)
  then show ?thesis
    unfolding l3 retIndex_last [OF last3] unfolding b3 using bl
    by (simp add: p_def X_def)
qed

lemma instrumentedBlocks_length: "length (instrumentedBlocks g F) = length (blocks F)"
  by (simp add: instrumentedBlocks_def instrReturns_length insertAt_def)

lemma instrumentedBlocks_body:
  "wellFormed F \<Longrightarrow> b < length (blocks F) \<Longrightarrow>
     instrumentedBlocks g F ! b =
       bodyAfterEntry g F b @
       returnLog (GlobalString g) (g + 2 + length (args F) + retIndex (blocks F) b)
         (last (blocks F ! b)) @
       [last (blocks F ! b)]"
  by (simp add: instrumentedBlocks_nth bodyAfterEntry_def)

lemma entryLog_plain: "I \<in> set (entryLog fn g Ts) \<Longrightarrow> isCallOrCast I"
  by (auto simp: entryLog_def dest: argLogs_plain)

lemma returnLog_plain: "I \<in> set (returnLog fn g T) \<Longrightarrow> isCallOrCast I"
  by (cases T) (auto simp: returnLog_def dest: retLog_plain)

lemma instrumentedBlocks_last:
  "wellFormed F \<Longrightarrow> b < length (blocks F) \<Longrightarrow>
     last (instrumentedBlocks g F ! b) = last (blocks F ! b)"
  by (simp add: instrumentedBlocks_nth)

lemma instrumentedBlocks_insertedOnly_gen:
  assumes wf: "wellFormed F" and b: "b < length (blocks F)"
    and E: "\<And>I. I \<in> set (entryLog (GlobalString g) (Suc g) (args F)) \<Longrightarrow> P I"
    and L: "\<And>I k T. g < k \<Longrightarrow> I \<in> set (returnLog (GlobalString g) k T) \<Longrightarrow> P I"
  shows "insertedOnly P (blocks F ! b) (instrumentedBlocks g F ! b)"
proof -
  define BB where "BB = blocks F ! b"
  define R where "R = returnLog (GlobalString g) (g + 2 + length (args F) + retIndex (blocks F) b)
                        (last BB)"
  have ne: "BB \<noteq> []"
    using wf b by (simp add: wellFormed_def BB_def)
  have "g < g + 2 + length (args F) + retIndex (blocks F) b"
    by simp
  then have R: "\<forall>I \<in> set R. P I"
    unfolding R_def using L by blast
  have tail: "insertedOnly P [last BB] (R @ [last BB])"
    using insertedOnly_insert [of R P "[]" "[last BB]"] R by simp
  have body: "insertedOnly P (butlast BB) (bodyAfterEntry g F b)"
  proof (cases "b = 0")
    case True
    define p where "p = getFirstInsertionPt BB"
    have "insertedOnly P (take p (butlast BB) @ drop p (butlast BB))
            (take p (butlast BB) @ entryLog (GlobalString g) (Suc g) (args F) @ drop p (butlast BB))"
      by (rule insertedOnly_insert) (simp add: E)
    moreover have "p < length BB"
      unfolding p_def using ne wf b by (simp add: getFirstInsertionPt_less wellFormed_def BB_def)
    then have "take p (butlast BB) = take p BB"
      by (simp add: take_butlast)
    ultimately show ?thesis
      using True by (simp add: bodyAfterEntry_def BB_def p_def)
  next
    case False
    then show ?thesis
      by (simp add: bodyAfterEntry_def BB_def insertedOnly_refl)
  qed
  have "insertedOnly P (butlast BB @ [last BB]) (bodyAfterEntry g F b @ R @ [last BB])"
    using body tail by (rule insertedOnly_append)
  then show ?thesis
    using ne wf b by (simp add: instrumentedBlocks_body BB_def R_def)
qed

lemma instrumentedBlocks_insertedOnly:
  assumes "wellFormed F" and "b < length (blocks F)"
  shows "insertedOnly isCallOrCast (blocks F ! b) (instrumentedBlocks g F ! b)"
  using assms by (rule instrumentedBlocks_insertedOnly_gen) (simp_all add: entryLog_plain returnLog_plain)

lemma instrumentedGlobals_length:
  "length (instrumentedGlobals F) = 2 + length (args F) + numReturns F"
  by (simp add: instrumentedGlobals_def retGlobals_length numReturns_def)

lemma instrumentedGlobals_ret:
  assumes "b < length (blocks F)" "last (blocks F ! b) = ReturnInst rv"
  shows "2 + length (args F) + retIndex (blocks F) b < length (instrumentedGlobals F) \<and>
         instrumentedGlobals F ! (2 + length (args F) + retIndex (blocks F) b) = retFormat rv"
  using retGlobals_nth [OF assms]
  by (simp add: instrumentedGlobals_def nth_append)

lemma retLog_shape:
  "\<exists>casts Ops. retLog fn k rv = casts @ [CallInst ''printf'' (GlobalString k # fn # Ops)] \<and>
     (\<forall>I \<in> set casts. \<exists>Op V T. I = CastInst Op V T)"
proof (cases rv)
  case None
  then show ?thesis by simp
next
  case (Some V)
  have "\<forall>I \<in> set (widenInstrs V). \<exists>Op V T. I = CastInst Op V T"
    using widenInstrs_plain by blast
  with Some show ?thesis by auto
qed

lemma run_changes:
  assumes wf: "wellFormed F" and ns: "\<not> isSkippableFunction F"
  shows "addGlobals (instrumentedGlobals F) (declarePrintf M) \<noteq> M"
    and "F\<lparr>blocks := instrumentedBlocks g F\<rparr> \<noteq> F"
proof -
  have "length (globalList (addGlobals (instrumentedGlobals F) (declarePrintf M))) \<noteq>
          length (globalList M)"
    by (simp add: globalList_addGlobals instrumentedGlobals_def)
  then show "addGlobals (instrumentedGlobals F) (declarePrintf M) \<noteq> M"
    by auto
  have ne: "blocks F \<noteq> []"
    using ns by (rule not_skippable_blocks)
  then have e: "blocks F ! 0 \<noteq> []"
    using wf by (simp add: wellFormed_def)
  have lt: "getFirstInsertionPt (blocks F ! 0) < length (blocks F ! 0)"
    using wf ne by (rule entry_insertion_point)
  have "length (instrumentedBlocks g F ! 0) =
          length (bodyAfterEntry g F 0) +
          length (returnLog (GlobalString g) (g + 2 + length (args F) + retIndex (blocks F) 0)
                    (last (blocks F ! 0))) + 1"
    using wf ne by (simp add: instrumentedBlocks_body)
  moreover have "length (bodyAfterEntry g F 0) \<ge> length (blocks F ! 0)"
    using lt by (simp add: bodyAfterEntry_def entryLog_def)
  ultimately have "length (instrumentedBlocks g F ! 0) \<noteq> length (blocks F ! 0)"
    by simp
  then have "blocks (F\<lparr>blocks := instrumentedBlocks g F\<rparr>) \<noteq> blocks F"
    by auto
  then show "F\<lparr>blocks := instrumentedBlocks g F\<rparr> \<noteq> F"
    by metis
qed

lemma functionList_declarePrintf:
  "functionList (declarePrintf M) =
     (if ''printf'' \<in> set (map fst (functionList M)) then functionList M
      else functionList M @ [(''printf'', PrintfTy)])"
  by (simp add: declarePrintf_def getOrInsertPrintf_def getOrInsertFunction_def)

lemma functionList_declarePrintf_cong:
  "functionList M1 = functionList M2 \<Longrightarrow>
     functionList (declarePrintf M1) = functionList (declarePrintf M2)"
  by (simp add: functionList_declarePrintf)

lemma functionList_declarePrintf_step:
  assumes "functionList M1 = functionList M \<or> functionList M1 = functionList (declarePrintf M)"
  shows "functionList (declarePrintf M1) = functionList (declarePrintf M)"
  using assms
proof
  assume "functionList M1 = functionList M"
  then show ?thesis by (rule functionList_declarePrintf_cong)
next
  assume "functionList M1 = functionList (declarePrintf M)"
  then have "functionList (declarePrintf M1) = functionList (declarePrintf (declarePrintf M))"
    by (rule functionList_declarePrintf_cong)
  then show ?thesis by (simp add: declarePrintf_idem)
qed

lemma numPrintf_declarePrintf: "numPrintf (declarePrintf M) = max 1 (numPrintf M)"
proof (cases "''printf'' \<in> set (map fst (functionList M))")
  case True
  then have "filter (\<lambda>d. fst d = ''printf'') (functionList M) \<noteq> []"
    by (force simp: filter_empty_conv)
  then have "1 \<le> numPrintf M"
    by (simp add: numPrintf_def Suc_le_eq)
  with True show ?thesis
    by (simp add: numPrintf_def functionList_declarePrintf)
next
  case False
  then have "filter (\<lambda>d. fst d = ''printf'') (functionList M) = []"
    by (force simp: filter_empty_conv)
  with False show ?thesis
    by (simp add: numPrintf_def functionList_declarePrintf)
qed

lemma instrumented_wellFormed:
  assumes "wellFormed F"
  shows "wellFormed (F\<lparr>blocks := instrumentedBlocks g F\<rparr>)"
proof -
  have "BB \<noteq> [] \<and> isTerminator (last BB)" if "BB \<in> set (instrumentedBlocks g F)" for BB
  proof -
    from that obtain b where b: "b < length (blocks F)" and BB: "BB = instrumentedBlocks g F ! b"
      by (auto simp: in_set_conv_nth instrumentedBlocks_length)
    have "blocks F ! b \<in> set (blocks F)"
      using b by simp
    with assms have "isTerminator (last (blocks F ! b))"
      by (simp add: wellFormed_def)
    then show ?thesis
      using instrumentedBlocks_body [OF assms b, of g] by (simp add: BB)
  qed
  then show ?thesis
    by (simp add: wellFormed_def)
qed

lemma instrumented_last:
  "wellFormed F \<Longrightarrow> map last (instrumentedBlocks g F) = map last (blocks F)"
  by (auto intro!: nth_equalityI simp: instrumentedBlocks_length instrumentedBlocks_last)

lemma instrumented_funcGlobals:
  assumes "wellFormed F"
  shows "funcGlobals (F\<lparr>blocks := instrumentedBlocks g F\<rparr>) = funcGlobals F"
proof -
  have "instrumentedBlocks g F = [] \<longleftrightarrow> blocks F = []"
    using instrumentedBlocks_length [of g F] by (metis length_0_conv)
  then have "isSkippableFunction (F\<lparr>blocks := instrumentedBlocks g F\<rparr>) = isSkippableFunction F"
    by (simp add: isSkippableFunction_def isDeclaration_def isIntrinsic_def)
  moreover have "instrumentedGlobals (F\<lparr>blocks := instrumentedBlocks g F\<rparr>) = instrumentedGlobals F"
    using retGlobals_last [OF instrumented_last [OF assms, of g]]
    by (simp add: instrumentedGlobals_def)
  ultimately show ?thesis
    by (simp add: funcGlobals_def)
qed

lemma run_step:
  assumes "wellFormed F"
  shows "\<exists>PA M' F'. run M F = Inr (PA, M', F') \<and>
           globalList M' = globalList M @ funcGlobals F \<and>
           (functionList M' = functionList M \<or> functionList M' = functionList (declarePrintf M)) \<and>
           wellFormed F' \<and> funcGlobals F' = funcGlobals F"
proof (cases "isSkippableFunction F")
  case True
  with assms show ?thesis
    by (simp add: run_def funcGlobals_def)
next
  case False
  with assms show ?thesis
    by (simp add: run_eq funcGlobals_def [of F] globalList_addGlobals functionList_addGlobals
        instrumented_wellFormed instrumented_funcGlobals)
qed

lemma runOnModule_step:
  assumes "list_all wellFormed Fs"
  shows "\<exists>M' Fs'. runOnModule M Fs = Inr (M', Fs') \<and>
           globalList M' = globalList M @ moduleGlobals Fs \<and>
           (functionList M' = functionList M \<or> functionList M' = functionList (declarePrintf M)) \<and>
           list_all wellFormed Fs' \<and> moduleGlobals Fs' = moduleGlobals Fs"
  using assms
proof (induction Fs arbitrary: M)
  case Nil
  then show ?case by (simp add: moduleGlobals_def)
next
  case (Cons F Fs)
  then have wf: "wellFormed F" and wfs: "list_all wellFormed Fs"
    by simp_all
  from run_step [OF wf, of M] obtain PA M1 F1 where
    r1: "run M F = Inr (PA, M1, F1)" and g1: "globalList M1 = globalList M @ funcGlobals F"
    and f1: "functionList M1 = functionList M \<or> functionList M1 = functionList (declarePrintf M)"
    and w1: "wellFormed F1" and fg1: "funcGlobals F1 = funcGlobals F"
    by blast
  from Cons.IH [OF wfs, of M1] obtain M2 Fs2 where
    r2: "runOnModule M1 Fs = Inr (M2, Fs2)"
    and g2: "globalList M2 = globalList M1 @ moduleGlobals Fs"
    and f2: "functionList M2 = functionList M1 \<or> functionList M2 = functionList (declarePrintf M1)"
    and w2: "list_all wellFormed Fs2" and mg2: "moduleGlobals Fs2 = moduleGlobals Fs"
    by blast
  have dp: "functionList (declarePrintf M1) = functionList (declarePrintf M)"
    using f1 by (rule functionList_declarePrintf_step)
  have "runOnModule M (F # Fs) = Inr (M2, F1 # Fs2)"
    using r1 r2 by simp
  moreover have "globalList M2 = globalList M @ moduleGlobals (F # Fs)"
    using g1 g2 by (simp add: moduleGlobals_def)
  moreover have "functionList M2 = functionList M \<or> functionList M2 = functionList (declarePrintf M)"
    using f1 f2 dp by auto
  moreover have "list_all wellFormed (F1 # Fs2)"
    using w1 w2 by simp
  moreover have "moduleGlobals (F1 # Fs2) = moduleGlobals (F # Fs)"
    using fg1 mg2 by (simp add: moduleGlobals_def)
  ultimately show ?case by blast
qed

lemma runTimes_step:
  assumes "list_all wellFormed Fs"
  shows "\<exists>M' Fs'. runTimes n M Fs = Inr (M', Fs') \<and>
           globalList M' = globalList M @ concat (replicate n (moduleGlobals Fs)) \<and>
           (functionList M' = functionList M \<or> functionList M' = functionList (declarePrintf M))"
  using assms
proof (induction n arbitrary: M Fs)
  case 0
  then show ?case by simp
next
  case (Suc n)
  from runOnModule_step [OF Suc.prems, of M] obtain M1 Fs1 where
    r1: "runOnModule M Fs = Inr (M1, Fs1)"
    and g1: "globalList M1 = globalList M @ moduleGlobals Fs"
    and f1: "functionList M1 = functionList M \<or> functionList M1 = functionList (declarePrintf M)"
    and w1: "list_all wellFormed Fs1" and mg1: "moduleGlobals Fs1 = moduleGlobals Fs"
    by blast
  from Suc.IH [OF w1, of M1] obtain M2 Fs2 where
    r2: "runTimes n M1 Fs1 = Inr (M2, Fs2)"
    and g2: "globalList M2 = globalList M1 @ concat (replicate n (moduleGlobals Fs1))"
    and f2: "functionList M2 = functionList M1 \<or> functionList M2 = functionList (declarePrintf M1)"
    by blast
  have dp: "functionList (declarePrintf M1) = functionList (declarePrintf M)"
    using f1 by (rule functionList_declarePrintf_step)
  have "runTimes (Suc n) M Fs = Inr (M2, Fs2)"
    using r1 r2 by simp
  moreover have "globalList M2 = globalList M @ concat (replicate (Suc n) (moduleGlobals Fs))"
    using g1 g2 mg1 by simp
  moreover have "functionList M2 = functionList M \<or> functionList M2 = functionList (declarePrintf M)"
    using f1 f2 dp by auto
  ultimately show ?case by blast
qed

lemma argLogs_fresh:
  "g < k \<Longrightarrow> I \<in> set (argLogs (GlobalString g) k i Ts) \<Longrightarrow> isFreshLog g I"
proof (induction Ts arbitrary: k i)
  case Nil
  then show ?case by simp
next
  case (Cons T Ts)
  from Cons.prems(2) consider "I \<in> set (argLogs (GlobalString g) (Suc k) (Suc i) Ts)"
    | "I \<in> set (argLog (GlobalString g) k i T)"
    by auto
  then show ?case
  proof cases
    case 1
    with Cons.IH [of "Suc k" "Suc i"] Cons.prems(1) show ?thesis by simp
  next
    case 2
    with Cons.prems(1) show ?thesis
      by (auto simp: argLog_def dest: widenInstrs_plain)
  qed
qed

lemma entryLog_fresh:
  "I \<in> set (entryLog (GlobalString g) (Suc g) Ts) \<Longrightarrow> isFreshLog g I"
  using argLogs_fresh [of g "Suc (Suc g)" I 0 Ts] by (auto simp: entryLog_def)

lemma returnLog_fresh:
  "g < k \<Longrightarrow> I \<in> set (returnLog (GlobalString g) k T) \<Longrightarrow> isFreshLog g I"
proof (cases T)
  case (ReturnInst rv)
  assume "g < k" "I \<in> set (returnLog (GlobalString g) k T)"
  with ReturnInst show ?thesis
    by (cases rv) (auto simp: returnLog_def dest: widenInstrs_plain)
qed (simp_all add: returnLog_def)

lemma retIndex_less:
  assumes "b < b'" and "b' \<le> length BBs" and "isReturnInst (last (BBs ! b))"
  shows "retIndex BBs b < retIndex BBs b'"
proof -
  have b: "b < length BBs"
    using assms by simp
  have "take b' BBs = take (b + (b' - b)) BBs"
    using assms(1) by simp
  also have "\<dots> = take b BBs @ take (b' - b) (drop b BBs)"
    by (rule take_add)
  also have "drop b BBs = BBs ! b # drop (Suc b) BBs"
    using b by (simp add: Cons_nth_drop_Suc)
  also have "take (b' - b) (BBs ! b # drop (Suc b) BBs) =
               BBs ! b # take (b' - Suc b) (drop (Suc b) BBs)"
  proof -
    from assms(1) have "b' - b = Suc (b' - Suc b)"
      by simp
    then show ?thesis
      by (simp only: take_Suc_Cons)
  qed
  finally show ?thesis
    using assms(3) by (simp add: retIndex_def)
qed

lemma argLogs_rev:
  "argLogs fn k i Ts =
     concat (rev (map (\<lambda>(j, T). argLog fn (k + j) (i + j) T) (enumerate 0 Ts)))"
proof (induction Ts arbitrary: k i)
  case Nil
  then show ?case by simp
next
  case (Cons T Ts)
  have "map (\<lambda>(j, T). argLog fn (k + j) (i + j) T) (enumerate (Suc 0) Ts) =
          map (\<lambda>(j, T). argLog fn (Suc k + j) (Suc i + j) T) (enumerate 0 Ts)"
    by (simp add: enumerate_Suc_eq split_def)
  with Cons.IH [of "Suc k" "Suc i"] show ?case
    by simp
qed

section \<open>The claims\<close>

text \<open>
  C1 fails on the code for every function with a parameter. \<open>exIdent\<close> has one: after
  \<open>run\<close> its entry block starts with the cast and the call of the argument log, and the
  entry log (the call with the format \<^verbatim>\<open>>> %s\<close>, global 1) comes third.
\<close>

theorem entry_log_after_argument_log:
  "run exampleModule exIdent =
     Inr (PreservedAnalyses_none,
          \<lparr>functionList = functionList exampleModule @ [(''printf'', PrintfTy)],
           globalList =
             [(''__logger.fn.ident'', ''ident''),
              (''__logger.fmt.enter'', ''>> %s\<newline>''),
              (''__logger.fmt.arg.i'', ''   %s(arg%d)=%lld\<newline>''),
              (''__logger.fmt.ret.i'', ''<< %s returns %lld\<newline>'')]\<rparr>,
          exIdent\<lparr>blocks :=
            [[CastInst ZExt (Argument 0 (IntegerTy 32)) (IntegerTy 64),
              CallInst ''printf''
                [GlobalString 2, GlobalString 0, ConstantInt 32 0,
                 CastResult ZExt (Argument 0 (IntegerTy 32)) (IntegerTy 64)],
              CallInst ''printf'' [GlobalString 1, GlobalString 0],
              CastInst ZExt (Argument 0 (IntegerTy 32)) (IntegerTy 64),
              CallInst ''printf''
                [GlobalString 3, GlobalString 0,
                 CastResult ZExt (Argument 0 (IntegerTy 32)) (IntegerTy 64)],
              ReturnInst (Some (Argument 0 (IntegerTy 32)))]]\<rparr>)"
  by code_simp

text \<open>
  C2 fails on the code for every function with a parameter. \<open>exAdd\<close> has two: after
  \<open>run\<close> the entry block holds the log of \<open>arg1\<close> (global 3), then the log of \<open>arg0\<close>
  (global 2), then the entry log (global 1), then the original addition. The argument
  logs are in reverse parameter order and before the entry log.
\<close>

theorem argument_logs_reversed_before_entry_log:
  "run exampleModule exAdd =
     Inr (PreservedAnalyses_none,
          \<lparr>functionList = functionList exampleModule @ [(''printf'', PrintfTy)],
           globalList =
             [(''__logger.fn.add'', ''add''),
              (''__logger.fmt.enter'', ''>> %s\<newline>''),
              (''__logger.fmt.arg.i'', ''   %s(arg%d)=%lld\<newline>''),
              (''__logger.fmt.arg.i'', ''   %s(arg%d)=%lld\<newline>''),
              (''__logger.fmt.ret.i'', ''<< %s returns %lld\<newline>'')]\<rparr>,
          exAdd\<lparr>blocks :=
            [[CastInst ZExt (Argument 1 (IntegerTy 32)) (IntegerTy 64),
              CallInst ''printf''
                [GlobalString 3, GlobalString 0, ConstantInt 32 1,
                 CastResult ZExt (Argument 1 (IntegerTy 32)) (IntegerTy 64)],
              CastInst ZExt (Argument 0 (IntegerTy 32)) (IntegerTy 64),
              CallInst ''printf''
                [GlobalString 2, GlobalString 0, ConstantInt 32 0,
                 CastResult ZExt (Argument 0 (IntegerTy 32)) (IntegerTy 64)],
              CallInst ''printf'' [GlobalString 1, GlobalString 0],
              Other 0,
              CastInst ZExt (Local 0 (IntegerTy 32)) (IntegerTy 64),
              CallInst ''printf''
                [GlobalString 4, GlobalString 0,
                 CastResult ZExt (Local 0 (IntegerTy 32)) (IntegerTy 64)],
              ReturnInst (Some (Local 0 (IntegerTy 32)))]]\<rparr>)"
  by code_simp

text \<open>
  C3. When a well-formed function is instrumented, every block that ends in a return gets
  exactly one return log, put between the rest of the block and the return, so that its
  call to \<^verbatim>\<open>printf\<close> is the instruction just before the return (only the cast of the
  returned value, if there is one, stands before the call); the format string of the
  call is a constant created for this return, and it is the one \<open>retFormat\<close> gives for
  the returned value (void, pointer, integer, floating point, aggregate). A block that
  ends in any other terminator gets no return log. Together the returns create
  \<open>numReturns F\<close> format strings: one per return, a later return a later one, none when
  there is no return.
\<close>

theorem return_log_before_each_return:
  assumes "wellFormed F" and "\<not> isSkippableFunction F"
  shows "\<exists>M' F'. run M F = Inr (PreservedAnalyses_none, M', F') \<and>
           length (blocks F') = length (blocks F) \<and>
           length (globalList M') = length (globalList M) + 2 + length (args F) + numReturns F \<and>
           (\<forall>b rv. b < length (blocks F) \<and> last (blocks F ! b) = ReturnInst rv \<longrightarrow>
              (\<exists>k casts Ops.
                 blocks F' ! b =
                   bodyAfterEntry (length (globalList M)) F b @ casts @
                   [CallInst ''printf'' (GlobalString k # GlobalString (length (globalList M)) # Ops),
                    ReturnInst rv] \<and>
                 casts @ [CallInst ''printf'' (GlobalString k # GlobalString (length (globalList M)) # Ops)] =
                   retLog (GlobalString (length (globalList M))) k rv \<and>
                 (\<forall>I \<in> set casts. \<exists>Op V T. I = CastInst Op V T) \<and>
                 k = length (globalList M) + 2 + length (args F) + retIndex (blocks F) b \<and>
                 retIndex (blocks F) b < numReturns F \<and>
                 globalList M' ! k = retFormat rv)) \<and>
           (\<forall>b. b < length (blocks F) \<and> \<not> isReturnInst (last (blocks F ! b)) \<longrightarrow>
              blocks F' ! b = bodyAfterEntry (length (globalList M)) F b @ [last (blocks F ! b)]) \<and>
           (\<forall>b b'. b < b' \<and> b' < length (blocks F) \<and> isReturnInst (last (blocks F ! b)) \<longrightarrow>
              retIndex (blocks F) b < retIndex (blocks F) b')"
proof -
  define g where "g = length (globalList M)"
  define M' where "M' = addGlobals (instrumentedGlobals F) (declarePrintf M)"
  define F' where "F' = F\<lparr>blocks := instrumentedBlocks g F\<rparr>"
  have run: "run M F = Inr (PreservedAnalyses_none, M', F')"
    using run_eq [OF assms, of M] by (simp add: M'_def F'_def g_def)
  have len: "length (blocks F') = length (blocks F)"
    by (simp add: F'_def instrumentedBlocks_length)
  have gl: "globalList M' = globalList M @ instrumentedGlobals F"
    by (simp add: M'_def globalList_addGlobals)
  then have glen: "length (globalList M') = g + 2 + length (args F) + numReturns F"
    by (simp add: instrumentedGlobals_length g_def)
  have ret: "\<exists>k casts Ops.
                 blocks F' ! b =
                   bodyAfterEntry g F b @ casts @
                   [CallInst ''printf'' (GlobalString k # GlobalString g # Ops), ReturnInst rv] \<and>
                 casts @ [CallInst ''printf'' (GlobalString k # GlobalString g # Ops)] =
                   retLog (GlobalString g) k rv \<and>
                 (\<forall>I \<in> set casts. \<exists>Op V T. I = CastInst Op V T) \<and>
                 k = g + 2 + length (args F) + retIndex (blocks F) b \<and>
                 retIndex (blocks F) b < numReturns F \<and>
                 globalList M' ! k = retFormat rv"
    if b: "b < length (blocks F)" and rv: "last (blocks F ! b) = ReturnInst rv" for b rv
  proof -
    define k where "k = g + 2 + length (args F) + retIndex (blocks F) b"
    obtain casts Ops where
      shape: "retLog (GlobalString g) k rv = casts @ [CallInst ''printf'' (GlobalString k # GlobalString g # Ops)]"
      and casts: "\<forall>I \<in> set casts. \<exists>Op V T. I = CastInst Op V T"
      using retLog_shape [of "GlobalString g" k rv] by blast
    have "blocks F' ! b = bodyAfterEntry g F b @ retLog (GlobalString g) k rv @ [ReturnInst rv]"
      using instrumentedBlocks_body [OF assms(1) b, of g] rv
      by (simp add: F'_def returnLog_def k_def)
    then have blk: "blocks F' ! b =
                   bodyAfterEntry g F b @ casts @
                   [CallInst ''printf'' (GlobalString k # GlobalString g # Ops), ReturnInst rv]"
      by (simp add: shape)
    from instrumentedGlobals_ret [OF b rv]
    have idx: "2 + length (args F) + retIndex (blocks F) b < length (instrumentedGlobals F)"
      and fmt: "instrumentedGlobals F ! (2 + length (args F) + retIndex (blocks F) b) = retFormat rv"
      by simp_all
    from idx have lt: "retIndex (blocks F) b < numReturns F"
      by (simp add: instrumentedGlobals_length)
    have "k = g + (2 + length (args F) + retIndex (blocks F) b)"
      by (simp add: k_def)
    then have "globalList M' ! k = retFormat rv"
      using fmt by (simp add: gl g_def nth_append)
    with blk shape casts lt show ?thesis
      by (intro exI [of _ k] exI [of _ casts] exI [of _ Ops]) (simp add: k_def)
  qed
  have other: "blocks F' ! b = bodyAfterEntry g F b @ [last (blocks F ! b)]"
    if b: "b < length (blocks F)" and nr: "\<not> isReturnInst (last (blocks F ! b))" for b
    using instrumentedBlocks_body [OF assms(1) b, of g] nr
    by (cases "last (blocks F ! b)") (simp_all add: F'_def returnLog_def)
  have mono: "retIndex (blocks F) b < retIndex (blocks F) b'"
    if "b < b' \<and> b' < length (blocks F) \<and> isReturnInst (last (blocks F ! b))" for b b'
    using that by (simp add: retIndex_less)
  show ?thesis
    using run len glen ret other mono unfolding g_def by blast
qed

theorem return_log_before_each_return_witness:
  "wellFormed exAbs \<and> \<not> isSkippableFunction exAbs \<and>
   (\<exists>M' F'. run exampleModule exAbs = Inr (PreservedAnalyses_none, M', F') \<and>
      blocks F' ! 1 =
        [CastInst ZExt (Argument 0 (IntegerTy 32)) (IntegerTy 64),
         CallInst ''printf''
           [GlobalString 3, GlobalString 0,
            CastResult ZExt (Argument 0 (IntegerTy 32)) (IntegerTy 64)],
         ReturnInst (Some (Argument 0 (IntegerTy 32)))] \<and>
      globalList M' ! 3 = (''__logger.fmt.ret.i'', ''<< %s returns %lld\<newline>''))"
proof -
  have wf: "wellFormed exAbs"
    by (simp add: wellFormed_def exAbs_def)
  have ns: "\<not> isSkippableFunction exAbs"
    by (simp add: isSkippableFunction_def isDeclaration_def isIntrinsic_def exAbs_def)
  have b: "1 < length (blocks exAbs) \<and>
           last (blocks exAbs ! 1) = ReturnInst (Some (Argument 0 (IntegerTy 32)))"
    by (simp add: exAbs_def)
  have g: "length (globalList exampleModule) = 0" "length (args exAbs) = 1"
    "retIndex (blocks exAbs) 1 = 0" "bodyAfterEntry 0 exAbs 1 = []"
    by (simp_all add: exampleModule_def exAbs_def retIndex_def bodyAfterEntry_def)
  from return_log_before_each_return [OF wf ns, of exampleModule]
  obtain M' F' where run: "run exampleModule exAbs = Inr (PreservedAnalyses_none, M', F')"
    and ret: "\<forall>b rv. b < length (blocks exAbs) \<and> last (blocks exAbs ! b) = ReturnInst rv \<longrightarrow>
              (\<exists>k casts Ops.
                 blocks F' ! b =
                   bodyAfterEntry (length (globalList exampleModule)) exAbs b @ casts @
                   [CallInst ''printf'' (GlobalString k # GlobalString (length (globalList exampleModule)) # Ops),
                    ReturnInst rv] \<and>
                 casts @ [CallInst ''printf'' (GlobalString k # GlobalString (length (globalList exampleModule)) # Ops)] =
                   retLog (GlobalString (length (globalList exampleModule))) k rv \<and>
                 (\<forall>I \<in> set casts. \<exists>Op V T. I = CastInst Op V T) \<and>
                 k = length (globalList exampleModule) + 2 + length (args exAbs) + retIndex (blocks exAbs) b \<and>
                 retIndex (blocks exAbs) b < numReturns exAbs \<and>
                 globalList M' ! k = retFormat rv)"
    by blast
  from ret b obtain k casts Ops where
    blk: "blocks F' ! 1 =
            bodyAfterEntry (length (globalList exampleModule)) exAbs 1 @ casts @
            [CallInst ''printf'' (GlobalString k # GlobalString (length (globalList exampleModule)) # Ops),
             ReturnInst (Some (Argument 0 (IntegerTy 32)))]"
    and log: "casts @ [CallInst ''printf'' (GlobalString k # GlobalString (length (globalList exampleModule)) # Ops)] =
                retLog (GlobalString (length (globalList exampleModule))) k (Some (Argument 0 (IntegerTy 32)))"
    and k: "k = length (globalList exampleModule) + 2 + length (args exAbs) + retIndex (blocks exAbs) 1"
    and fmt: "globalList M' ! k = retFormat (Some (Argument 0 (IntegerTy 32)))"
    by blast
  have k3: "k = 3"
    using k g by simp
  have "retLog (GlobalString 0) 3 (Some (Argument 0 (IntegerTy 32))) =
          [CastInst ZExt (Argument 0 (IntegerTy 32)) (IntegerTy 64),
           CallInst ''printf''
             [GlobalString 3, GlobalString 0,
              CastResult ZExt (Argument 0 (IntegerTy 32)) (IntegerTy 64)]]"
    by (simp add: widenInstrs_def widenValue_def widen_def castInstrs_def castValue_def zextOp_def)
  with blk log k3 g have "blocks F' ! 1 =
        [CastInst ZExt (Argument 0 (IntegerTy 32)) (IntegerTy 64),
         CallInst ''printf''
           [GlobalString 3, GlobalString 0,
            CastResult ZExt (Argument 0 (IntegerTy 32)) (IntegerTy 64)],
         ReturnInst (Some (Argument 0 (IntegerTy 32)))]"
    by (metis append_Cons append_Nil append_assoc)
  moreover from fmt k3 have "globalList M' ! 3 = (''__logger.fmt.ret.i'', ''<< %s returns %lld\<newline>'')"
    by simp
  ultimately show ?thesis
    using wf ns run by blast
qed

text \<open>
  C4. On a well-formed function \<open>run\<close> returns, and it leaves the function and the module
  as they are exactly when the function is skippable, that is when it is a declaration, an
  intrinsic, or has a non-empty name that is \<^verbatim>\<open>printf\<close> or starts with
  \<^verbatim>\<open>__logger\<close>; otherwise both the module and the function change. A defined
  function with an empty name is not skippable.
\<close>

theorem unchanged_iff_skippable:
  assumes "wellFormed F"
  shows "\<exists>PA M' F'. run M F = Inr (PA, M', F') \<and>
           ((M' = M \<and> F' = F) \<longleftrightarrow> isSkippableFunction F) \<and>
           (\<not> isSkippableFunction F \<longrightarrow> M' \<noteq> M \<and> F' \<noteq> F) \<and>
           (isSkippableFunction F \<longleftrightarrow>
              isDeclaration F \<or> isIntrinsic F \<or>
              (fname F \<noteq> [] \<and> (fname F = ''printf'' \<or> prefix ''__logger'' (fname F)))) \<and>
           (\<not> isDeclaration F \<and> fname F = [] \<longrightarrow> \<not> isSkippableFunction F)"
proof -
  have chr: "isSkippableFunction F \<longleftrightarrow>
              isDeclaration F \<or> isIntrinsic F \<or>
              (fname F \<noteq> [] \<and> (fname F = ''printf'' \<or> prefix ''__logger'' (fname F)))"
    by (simp add: isSkippableFunction_def Let_def)
  have anon: "\<not> isDeclaration F \<and> fname F = [] \<longrightarrow> \<not> isSkippableFunction F"
    by (simp add: chr isIntrinsic_def)
  show ?thesis
  proof (cases "isSkippableFunction F")
    case True
    then have "run M F = Inr (PreservedAnalyses_all, M, F)"
      by (simp add: run_def)
    with True chr anon show ?thesis by simp
  next
    case False
    from run_eq [OF assms False, of M] run_changes(1) [OF assms False, of M]
      run_changes(2) [OF assms False, of "length (globalList M)"] False chr anon
    show ?thesis by simp
  qed
qed

theorem unchanged_iff_skippable_witness:
  "wellFormed exAnon \<and> \<not> isSkippableFunction exAnon \<and>
   (\<exists>PA M' F'. run exampleModule exAnon = Inr (PA, M', F') \<and> M' \<noteq> exampleModule \<and> F' \<noteq> exAnon)"
proof -
  have wf: "wellFormed exAnon"
    by (simp add: wellFormed_def exAnon_def)
  have "\<not> isDeclaration exAnon \<and> fname exAnon = []"
    by (simp add: isDeclaration_def exAnon_def)
  with unchanged_iff_skippable [OF wf, of exampleModule] wf show ?thesis
    by blast
qed

text \<open>
  C5. When a well-formed function is instrumented, the number of blocks, the last
  instruction of every block (its terminator, with its successors) and the function's
  name, calling convention, return type and parameters are as before; every block is the
  old block with call and cast instructions added, which are not terminators, and nothing
  removed or reordered.
\<close>

theorem control_flow_graph_unchanged:
  assumes "wellFormed F" and "\<not> isSkippableFunction F"
  shows "\<exists>M' F'. run M F = Inr (PreservedAnalyses_none, M', F') \<and>
           length (blocks F') = length (blocks F) \<and>
           map last (blocks F') = map last (blocks F) \<and>
           map (successors \<circ> last) (blocks F') = map (successors \<circ> last) (blocks F) \<and>
           list_all2 (insertedOnly isCallOrCast) (blocks F) (blocks F') \<and>
           (\<forall>I. isCallOrCast I \<longrightarrow> \<not> isTerminator I) \<and>
           fname F' = fname F \<and> callingConv F' = callingConv F \<and>
           returnType F' = returnType F \<and> args F' = args F"
proof -
  define g where "g = length (globalList M)"
  have last: "map last (instrumentedBlocks g F) = map last (blocks F)"
    using assms(1)
    by (auto intro!: nth_equalityI simp: instrumentedBlocks_length instrumentedBlocks_last)
  then have "map successors (map last (instrumentedBlocks g F)) = map successors (map last (blocks F))"
    by simp
  then have succ: "map (successors \<circ> last) (instrumentedBlocks g F) = map (successors \<circ> last) (blocks F)"
    by simp
  have ins: "list_all2 (insertedOnly isCallOrCast) (blocks F) (instrumentedBlocks g F)"
    using assms(1)
    by (simp add: list_all2_conv_all_nth instrumentedBlocks_length instrumentedBlocks_insertedOnly)
  have nt: "\<not> isTerminator I" if "isCallOrCast I" for I
    using that by (cases I) simp_all
  show ?thesis
    using run_eq [OF assms, of M] last succ ins nt
    by (simp add: g_def instrumentedBlocks_length)
qed

theorem control_flow_graph_unchanged_witness:
  "wellFormed exAbs \<and> \<not> isSkippableFunction exAbs \<and>
   (\<exists>M' F'. run exampleModule exAbs = Inr (PreservedAnalyses_none, M', F') \<and>
      length (blocks F') = 3 \<and>
      map last (blocks F') =
        [Terminator 0 [1, 2], ReturnInst (Some (Argument 0 (IntegerTy 32))),
         ReturnInst (Some (Local 1 (IntegerTy 32)))])"
proof -
  have wf: "wellFormed exAbs"
    by (simp add: wellFormed_def exAbs_def)
  have ns: "\<not> isSkippableFunction exAbs"
    by (simp add: isSkippableFunction_def isDeclaration_def isIntrinsic_def exAbs_def)
  from control_flow_graph_unchanged [OF wf ns, of exampleModule]
  obtain M' F' where "run exampleModule exAbs = Inr (PreservedAnalyses_none, M', F')"
    and "length (blocks F') = length (blocks exAbs)"
    and "map last (blocks F') = map last (blocks exAbs)"
    by blast
  then have "run exampleModule exAbs = Inr (PreservedAnalyses_none, M', F') \<and>
      length (blocks F') = 3 \<and>
      map last (blocks F') =
        [Terminator 0 [1, 2], ReturnInst (Some (Argument 0 (IntegerTy 32))),
         ReturnInst (Some (Local 1 (IntegerTy 32)))]"
    by (simp add: exAbs_def)
  with wf ns show ?thesis by auto
qed

text \<open>
  C6. For a value of an integer type narrower than 64 bits, the argument log and the
  return log pass the result of a \<open>ZExt\<close> cast to 64 bits (a cast instruction, or a
  folded constant when the value is a constant), and the value of that result is the
  unsigned value of the operand's bits, which \<^verbatim>\<open>%lld\<close> prints as it is. The bits
  200 in 8 bits are logged as 200; a sign extension would give -56. The integer types of
  the representation carry no signedness, so this holds whatever the source-level type.
\<close>

theorem narrow_integers_are_zero_extended:
  assumes "getType V = IntegerTy w" and "w < 64"
  shows "emitPrintfArgInt (b, p) M F fn i V =
           ((b, Suc (p + length (castInstrs ZExt V (IntegerTy 64)))),
            addGlobal ''__logger.fmt.arg.i'' ''   %s(arg%d)=%lld\<newline>'' (declarePrintf M),
            insertAt b p
              ((if isConstant V then [] else [CastInst ZExt V (IntegerTy 64)]) @
               [CallInst ''printf''
                  [GlobalString (length (globalList M)), fn, ConstantInt 32 (int i),
                   CastResult ZExt V (IntegerTy 64)]]) F) \<and>
         emitPrintfRetInt (b, p) M F fn V =
           ((b, Suc (p + length (castInstrs ZExt V (IntegerTy 64)))),
            addGlobal ''__logger.fmt.ret.i'' ''<< %s returns %lld\<newline>'' (declarePrintf M),
            insertAt b p
              ((if isConstant V then [] else [CastInst ZExt V (IntegerTy 64)]) @
               [CallInst ''printf''
                  [GlobalString (length (globalList M)), fn,
                   CastResult ZExt V (IntegerTy 64)]]) F) \<and>
         evalInt env (CastResult ZExt V (IntegerTy 64)) = evalInt env V mod 2 ^ w \<and>
         asSigned64 (evalInt env (CastResult ZExt V (IntegerTy 64))) = int (evalInt env V mod 2 ^ w) \<and>
         evalIntCast ZExt 8 64 200 = 200 \<and> asSigned64 (evalIntCast ZExt 8 64 200) = 200 \<and>
         asSigned64 (evalIntCast SExt 8 64 200) = - 56"
proof -
  have op: "zextOp (getType V) = ZExt"
    using assms by (simp add: zextOp_def)
  have ci: "castInstrs ZExt V (IntegerTy 64) =
              (if isConstant V then [] else [CastInst ZExt V (IntegerTy 64)])"
    using assms by (simp add: castInstrs_def)
  have cv: "castValue ZExt V (IntegerTy 64) = CastResult ZExt V (IntegerTy 64)"
    using assms by (simp add: castValue_def)
  have ev: "evalInt env (CastResult ZExt V (IntegerTy 64)) = evalInt env V mod 2 ^ w"
    using assms by simp
  have "(2::nat) ^ w \<le> 2 ^ 63"
    using assms(2) by (intro power_increasing) simp_all
  moreover have "evalInt env V mod 2 ^ w < 2 ^ w"
    by simp
  ultimately have lt: "evalInt env V mod 2 ^ w < 2 ^ 63"
    by (rule less_le_trans [rotated])
  then have "evalInt env V mod 2 ^ w mod 2 ^ 64 = evalInt env V mod 2 ^ w"
    by simp
  with lt have sg: "asSigned64 (evalInt env V mod 2 ^ w) = int (evalInt env V mod 2 ^ w)"
    by (simp add: asSigned64_def)
  have ex: "evalIntCast ZExt 8 64 200 = 200 \<and> asSigned64 (evalIntCast ZExt 8 64 200) = 200 \<and>
         asSigned64 (evalIntCast SExt 8 64 200) = - 56"
    by (simp add: asSigned64_def)
  show ?thesis
    using ev sg ex by (simp add: emitPrintfArgInt_eq emitPrintfRetInt_eq op ci cv)
qed

theorem narrow_integers_are_zero_extended_witness:
  "getType (Argument 0 (IntegerTy 8)) = IntegerTy 8 \<and> (8::nat) < 64 \<and>
   evalInt (\<lambda>v. 200) (Argument 0 (IntegerTy 8)) = 200 \<and>
   asSigned64 (evalInt (\<lambda>v. 200) (CastResult ZExt (Argument 0 (IntegerTy 8)) (IntegerTy 64))) = 200"
proof -
  have t: "getType (Argument 0 (IntegerTy 8)) = IntegerTy 8" and w: "(8::nat) < 64"
    by simp_all
  from narrow_integers_are_zero_extended [OF t w, where env = "\<lambda>v. 200"]
  show ?thesis by simp
qed

text \<open>
  C7 fails on the code for an integer wider than 64 bits (and for a floating-point type
  wider than double). \<open>exWide\<close> has a parameter of type \<^verbatim>\<open>i128\<close>: the integer branch
  emits \<^verbatim>\<open>zext i128 %x to i64\<close>, which is not a valid cast.
\<close>

theorem wide_integer_argument_gets_invalid_cast:
  "run exampleModule exWide =
     Inr (PreservedAnalyses_none,
          \<lparr>functionList = functionList exampleModule @ [(''printf'', PrintfTy)],
           globalList =
             [(''__logger.fn.wide'', ''wide''),
              (''__logger.fmt.enter'', ''>> %s\<newline>''),
              (''__logger.fmt.arg.i'', ''   %s(arg%d)=%lld\<newline>''),
              (''__logger.fmt.ret.v'', ''<< %s returns void\<newline>'')]\<rparr>,
          exWide\<lparr>blocks :=
            [[CastInst ZExt (Argument 0 (IntegerTy 128)) (IntegerTy 64),
              CallInst ''printf''
                [GlobalString 2, GlobalString 0, ConstantInt 32 0,
                 CastResult ZExt (Argument 0 (IntegerTy 128)) (IntegerTy 64)],
              CallInst ''printf'' [GlobalString 1, GlobalString 0],
              CallInst ''printf'' [GlobalString 3, GlobalString 0],
              ReturnInst None]]\<rparr>) \<and>
   \<not> castIsValid ZExt (getType (Argument 0 (IntegerTy 128))) (IntegerTy 64) \<and>
   \<not> castIsValid FPExt X86_FP80Ty DoubleTy"
  by code_simp

text \<open>
  C8. Running the pass any number \<open>n\<close> of times over the functions of a module adds at
  most one declaration of \<^verbatim>\<open>printf\<close>, the first time it is looked up and only when
  the module had none (\<open>getOrInsertPrintf\<close> is idempotent), while every run appends its
  own string constants once more: after \<open>n\<close> runs the module holds \<open>n\<close> copies of
  them. Within one run every added instruction is a cast or a call to \<^verbatim>\<open>printf\<close>
  whose format string and function-name string are constants created by that run.
\<close>

theorem printf_declared_once_constants_created_anew:
  assumes "list_all wellFormed Fs"
  shows "\<exists>M' Fs'. runTimes n M Fs = Inr (M', Fs') \<and>
           (functionList M' = functionList M \<or>
            ''printf'' \<notin> set (map fst (functionList M)) \<and>
            functionList M' = functionList M @ [(''printf'', PrintfTy)]) \<and>
           numPrintf M' \<le> max 1 (numPrintf M) \<and>
           snd (getOrInsertPrintf (snd (getOrInsertPrintf M))) = snd (getOrInsertPrintf M) \<and>
           globalList M' = globalList M @ concat (replicate n (moduleGlobals Fs)) \<and>
           (\<forall>F. F \<in> set Fs \<and> \<not> isSkippableFunction F \<longrightarrow>
              (\<exists>M1 F1. run M F = Inr (PreservedAnalyses_none, M1, F1) \<and>
                 globalList M1 = globalList M @ instrumentedGlobals F \<and>
                 list_all2 (insertedOnly (isFreshLog (length (globalList M)))) (blocks F) (blocks F1)))"
proof -
  from runTimes_step [OF assms, of n M] obtain M' Fs' where
    r: "runTimes n M Fs = Inr (M', Fs')"
    and g: "globalList M' = globalList M @ concat (replicate n (moduleGlobals Fs))"
    and f: "functionList M' = functionList M \<or> functionList M' = functionList (declarePrintf M)"
    by blast
  from f have f': "functionList M' = functionList M \<or>
            ''printf'' \<notin> set (map fst (functionList M)) \<and>
            functionList M' = functionList M @ [(''printf'', PrintfTy)]"
    by (auto simp: functionList_declarePrintf split: if_splits)
  from f have "numPrintf M' = numPrintf M \<or> numPrintf M' = numPrintf (declarePrintf M)"
    by (auto simp: numPrintf_def)
  then have np: "numPrintf M' \<le> max 1 (numPrintf M)"
    by (auto simp: numPrintf_declarePrintf)
  have idem: "snd (getOrInsertPrintf (snd (getOrInsertPrintf M))) = snd (getOrInsertPrintf M)"
    using declarePrintf_idem [of M] by (simp add: declarePrintf_def)
  have one: "\<exists>M1 F1. run M F = Inr (PreservedAnalyses_none, M1, F1) \<and>
                 globalList M1 = globalList M @ instrumentedGlobals F \<and>
                 list_all2 (insertedOnly (isFreshLog (length (globalList M)))) (blocks F) (blocks F1)"
    if "F \<in> set Fs \<and> \<not> isSkippableFunction F" for F
  proof -
    from that assms have wf: "wellFormed F" and ns: "\<not> isSkippableFunction F"
      by (simp_all add: list_all_iff)
    have "insertedOnly (isFreshLog (length (globalList M))) (blocks F ! b)
            (instrumentedBlocks (length (globalList M)) F ! b)" if "b < length (blocks F)" for b
      using wf that by (rule instrumentedBlocks_insertedOnly_gen) (simp_all add: entryLog_fresh returnLog_fresh)
    then have "list_all2 (insertedOnly (isFreshLog (length (globalList M)))) (blocks F)
                 (instrumentedBlocks (length (globalList M)) F)"
      by (simp add: list_all2_conv_all_nth instrumentedBlocks_length)
    then show ?thesis
      by (simp add: run_eq [OF wf ns] globalList_addGlobals)
  qed
  show ?thesis
    using r f' np idem g one by blast
qed

theorem printf_declared_once_constants_created_anew_witness:
  "list_all wellFormed [exAdd, exHelper] \<and>
   (\<exists>M' Fs'. runTimes 2 exampleModule [exAdd, exHelper] = Inr (M', Fs') \<and>
      numPrintf M' \<le> 1 \<and>
      map fst (globalList M') =
        [''__logger.fn.add'', ''__logger.fmt.enter'', ''__logger.fmt.arg.i'',
         ''__logger.fmt.arg.i'', ''__logger.fmt.ret.i'',
         ''__logger.fn.add'', ''__logger.fmt.enter'', ''__logger.fmt.arg.i'',
         ''__logger.fmt.arg.i'', ''__logger.fmt.ret.i''])"
proof -
  have wf: "list_all wellFormed [exAdd, exHelper]"
    by (simp add: wellFormed_def exAdd_def exHelper_def)
  have np: "numPrintf exampleModule = 0"
    by (simp add: numPrintf_def exampleModule_def)
  have sk: "\<not> isSkippableFunction exAdd" "isSkippableFunction exHelper"
    by (simp_all add: isSkippableFunction_def isDeclaration_def isIntrinsic_def exAdd_def exHelper_def)
  have mg: "map fst (concat (replicate 2 (moduleGlobals [exAdd, exHelper]))) =
        [''__logger.fn.add'', ''__logger.fmt.enter'', ''__logger.fmt.arg.i'',
         ''__logger.fmt.arg.i'', ''__logger.fmt.ret.i'',
         ''__logger.fn.add'', ''__logger.fmt.enter'', ''__logger.fmt.arg.i'',
         ''__logger.fmt.arg.i'', ''__logger.fmt.ret.i'']"
    using sk
    by (simp add: numeral_2_eq_2 moduleGlobals_def funcGlobals_def instrumentedGlobals_def)
       (simp add: exAdd_def argFormat_def)
  from printf_declared_once_constants_created_anew [OF wf, of 2 exampleModule]
  obtain M' Fs' where "runTimes 2 exampleModule [exAdd, exHelper] = Inr (M', Fs')"
    and "numPrintf M' \<le> max 1 (numPrintf exampleModule)"
    and "globalList M' = globalList exampleModule @ concat (replicate 2 (moduleGlobals [exAdd, exHelper]))"
    by blast
  then have "runTimes 2 exampleModule [exAdd, exHelper] = Inr (M', Fs') \<and>
      numPrintf M' \<le> 1 \<and>
      map fst (globalList M') =
        [''__logger.fn.add'', ''__logger.fmt.enter'', ''__logger.fmt.arg.i'',
         ''__logger.fmt.arg.i'', ''__logger.fmt.ret.i'',
         ''__logger.fn.add'', ''__logger.fmt.enter'', ''__logger.fmt.arg.i'',
         ''__logger.fmt.arg.i'', ''__logger.fmt.ret.i'']"
    using np mg by (simp add: exampleModule_def)
  then have "\<exists>M' Fs'. runTimes 2 exampleModule [exAdd, exHelper] = Inr (M', Fs') \<and>
      numPrintf M' \<le> 1 \<and>
      map fst (globalList M') =
        [''__logger.fn.add'', ''__logger.fmt.enter'', ''__logger.fmt.arg.i'',
         ''__logger.fmt.arg.i'', ''__logger.fmt.ret.i'',
         ''__logger.fn.add'', ''__logger.fmt.enter'', ''__logger.fmt.arg.i'',
         ''__logger.fmt.arg.i'', ''__logger.fmt.ret.i'']"
    by (intro exI)
  with wf show ?thesis by (rule conjI)
qed

text \<open>
  C9 as stated fails: the result of \<open>run\<close> on the instrumented function \<open>exIdent\<close> is the
  none-preserved result, in which the CFG analyses do not count as preserved.
\<close>

theorem instrumented_result_not_cfg_preserving:
  "map_sum id fst (run exampleModule exIdent) = Inr PreservedAnalyses_none \<and>
   \<not> preserved CFGAnalysesKey PreservedAnalyses_none"
proof -
  have wf: "wellFormed exIdent"
    by (simp add: wellFormed_def exIdent_def)
  have ns: "\<not> isSkippableFunction exIdent"
    by (simp add: isSkippableFunction_def isDeclaration_def isIntrinsic_def exIdent_def)
  show ?thesis
    by (simp add: run_eq [OF wf ns] preserved_def PreservedAnalyses_none_def)
qed

text \<open>
  C9, amended. When a well-formed function is instrumented, the result of \<open>run\<close> is the
  none-preserved result: no analysis counts as preserved, the CFG analyses included, and
  not all analyses are preserved.
\<close>

theorem instrumented_reports_none_preserved:
  assumes "wellFormed F" and "\<not> isSkippableFunction F"
  shows "\<exists>M' F'. run M F = Inr (PreservedAnalyses_none, M', F') \<and>
           (\<forall>k. \<not> preserved k PreservedAnalyses_none) \<and>
           \<not> preserved CFGAnalysesKey PreservedAnalyses_none \<and>
           \<not> areAllPreserved PreservedAnalyses_none"
  using run_eq [OF assms, of M]
  by (simp add: preserved_def areAllPreserved_def PreservedAnalyses_none_def)

theorem instrumented_reports_none_preserved_witness:
  "wellFormed exAdd \<and> \<not> isSkippableFunction exAdd \<and>
   (\<exists>M' F'. run exampleModule exAdd = Inr (PreservedAnalyses_none, M', F'))"
proof -
  have wf: "wellFormed exAdd"
    by (simp add: wellFormed_def exAdd_def)
  have ns: "\<not> isSkippableFunction exAdd"
    by (simp add: isSkippableFunction_def isDeclaration_def isIntrinsic_def exAdd_def)
  from instrumented_reports_none_preserved [OF wf ns, of exampleModule] wf ns
  show ?thesis by blast
qed

text \<open>
  C10. For every function the eligibility filter skips, \<open>run\<close> returns the
  all-preserved result and leaves the module and the function as they are; the
  all-preserved result holds every analysis, and differs from the none-preserved result,
  which holds none and is what \<open>run\<close> returns for every well-formed function it
  instruments.
\<close>

theorem skipped_reports_all_preserved:
  assumes "isSkippableFunction F"
  shows "run M F = Inr (PreservedAnalyses_all, M, F) \<and>
         areAllPreserved PreservedAnalyses_all \<and>
         (\<forall>k. preserved k PreservedAnalyses_all) \<and>
         \<not> areAllPreserved PreservedAnalyses_none \<and>
         PreservedAnalyses_all \<noteq> PreservedAnalyses_none \<and>
         (\<forall>G. wellFormed G \<and> \<not> isSkippableFunction G \<longrightarrow>
            (\<exists>M1 G1. run M G = Inr (PreservedAnalyses_none, M1, G1)))"
proof -
  have "\<exists>M1 G1. run M G = Inr (PreservedAnalyses_none, M1, G1)"
    if "wellFormed G \<and> \<not> isSkippableFunction G" for G
    using that by (simp add: run_eq)
  then show ?thesis
    using assms
    by (simp add: run_def PreservedAnalyses_all_def PreservedAnalyses_none_def
        areAllPreserved_def preserved_def)
qed

theorem skipped_reports_all_preserved_witness:
  "isSkippableFunction exHelper \<and>
   run exampleModule exHelper = Inr (PreservedAnalyses_all, exampleModule, exHelper) \<and>
   preserved CFGAnalysesKey PreservedAnalyses_all \<and>
   wellFormed exAdd \<and> \<not> isSkippableFunction exAdd \<and>
   (\<exists>M1 G1. run exampleModule exAdd = Inr (PreservedAnalyses_none, M1, G1))"
proof -
  have skip: "isSkippableFunction exHelper"
    by (simp add: isSkippableFunction_def isDeclaration_def isIntrinsic_def exHelper_def)
  have wf: "wellFormed exAdd"
    by (simp add: wellFormed_def exAdd_def)
  have ns: "\<not> isSkippableFunction exAdd"
    by (simp add: isSkippableFunction_def isDeclaration_def isIntrinsic_def exAdd_def)
  from skipped_reports_all_preserved [OF skip, of exampleModule] skip wf ns
  show ?thesis by blast
qed

section \<open>Further properties of the pass\<close>

text \<open>
  The entry block of an instrumented well-formed function, as the pass leaves it:
  the instructions before the first insertion point, the argument logs with the log of
  the last parameter first and the log of \<open>arg0\<close> last, the entry log, the rest of the
  original instructions, the return log when the block ends in a return, and the
  terminator. The function-name string is the first constant the run creates, the
  format of the entry log the second, and the format of the log of parameter \<open>i\<close> the
  one after these at position \<open>i\<close>.
\<close>

theorem entry_block_layout:
  assumes "wellFormed F" and "\<not> isSkippableFunction F"
  shows "\<exists>M' F'. run M F = Inr (PreservedAnalyses_none, M', F') \<and>
           blocks F' ! 0 =
             take (getFirstInsertionPt (blocks F ! 0)) (blocks F ! 0) @
             concat (rev (map (\<lambda>(j, T). argLog (GlobalString (length (globalList M)))
                                   (length (globalList M) + 2 + j) j T)
                            (enumerate 0 (args F)))) @
             [CallInst ''printf''
                [GlobalString (Suc (length (globalList M))), GlobalString (length (globalList M))]] @
             drop (getFirstInsertionPt (blocks F ! 0)) (butlast (blocks F ! 0)) @
             returnLog (GlobalString (length (globalList M)))
               (length (globalList M) + 2 + length (args F)) (last (blocks F ! 0)) @
             [last (blocks F ! 0)] \<and>
           globalList M' ! length (globalList M) = (''__logger.fn.'' @ fname F, fname F) \<and>
           globalList M' ! Suc (length (globalList M)) = (''__logger.fmt.enter'', ''>> %s\<newline>'') \<and>
           (\<forall>i. i < length (args F) \<longrightarrow>
              globalList M' ! (length (globalList M) + 2 + i) = argFormat (args F ! i))"
proof -
  define g where "g = length (globalList M)"
  have ne: "0 < length (blocks F)"
    using not_skippable_blocks [OF assms(2)] by simp
  have blk: "instrumentedBlocks g F ! 0 =
             take (getFirstInsertionPt (blocks F ! 0)) (blocks F ! 0) @
             concat (rev (map (\<lambda>(j, T). argLog (GlobalString g) (g + 2 + j) j T)
                            (enumerate 0 (args F)))) @
             [CallInst ''printf'' [GlobalString (Suc g), GlobalString g]] @
             drop (getFirstInsertionPt (blocks F ! 0)) (butlast (blocks F ! 0)) @
             returnLog (GlobalString g) (g + 2 + length (args F)) (last (blocks F ! 0)) @
             [last (blocks F ! 0)]"
    using instrumentedBlocks_nth [OF assms(1) ne, of g]
    by (simp add: entryLog_def retIndex_0 argLogs_rev)
  have g0: "(globalList M @ instrumentedGlobals F) ! g = (''__logger.fn.'' @ fname F, fname F)"
    and g1: "(globalList M @ instrumentedGlobals F) ! Suc g = (''__logger.fmt.enter'', ''>> %s\<newline>'')"
    by (simp_all add: g_def nth_append instrumentedGlobals_def)
  have gi: "(globalList M @ instrumentedGlobals F) ! (g + 2 + i) = argFormat (args F ! i)"
    if "i < length (args F)" for i
    using that by (simp add: g_def nth_append instrumentedGlobals_def)
  show ?thesis
    using run_eq [OF assms, of M] blk g0 g1 gi
    by (simp add: globalList_addGlobals g_def)
qed

theorem entry_block_layout_witness:
  "wellFormed exAdd \<and> \<not> isSkippableFunction exAdd \<and>
   (\<exists>M' F'. run exampleModule exAdd = Inr (PreservedAnalyses_none, M', F') \<and>
      globalList M' ! 0 = (''__logger.fn.add'', ''add'') \<and>
      globalList M' ! 1 = (''__logger.fmt.enter'', ''>> %s\<newline>''))"
proof -
  have wf: "wellFormed exAdd"
    by (simp add: wellFormed_def exAdd_def)
  have ns: "\<not> isSkippableFunction exAdd"
    by (simp add: isSkippableFunction_def isDeclaration_def isIntrinsic_def exAdd_def)
  have g: "length (globalList exampleModule) = 0" "fname exAdd = ''add''"
    by (simp_all add: exampleModule_def exAdd_def)
  from entry_block_layout [OF wf ns, of exampleModule]
  obtain M' F' where "run exampleModule exAdd = Inr (PreservedAnalyses_none, M', F')"
    and "globalList M' ! length (globalList exampleModule) = (''__logger.fn.'' @ fname exAdd, fname exAdd)"
    and "globalList M' ! Suc (length (globalList exampleModule)) = (''__logger.fmt.enter'', ''>> %s\<newline>'')"
    by blast
  then have "run exampleModule exAdd = Inr (PreservedAnalyses_none, M', F') \<and>
      globalList M' ! 0 = (''__logger.fn.add'', ''add'') \<and>
      globalList M' ! 1 = (''__logger.fmt.enter'', ''>> %s\<newline>'')"
    by (simp add: g)
  then have "\<exists>M' F'. run exampleModule exAdd = Inr (PreservedAnalyses_none, M', F') \<and>
      globalList M' ! 0 = (''__logger.fn.add'', ''add'') \<and>
      globalList M' ! 1 = (''__logger.fmt.enter'', ''>> %s\<newline>'')"
    by (intro exI)
  with wf ns show ?thesis by simp
qed

text \<open>
  On every function whose blocks all end in a terminator \<open>run\<close> returns a result:
  the type tests of the argument loop and of the return loop cover every type, and no
  iterator or terminator is missing.
\<close>

theorem run_returns_on_well_formed:
  assumes "wellFormed F"
  shows "\<exists>PA M' F'. run M F = Inr (PA, M', F') \<and> wellFormed F'"
  using run_step [OF assms, of M] by blast

theorem run_returns_on_well_formed_witness:
  "wellFormed exWide \<and> (\<exists>PA M' F'. run exampleModule exWide = Inr (PA, M', F'))"
proof -
  have wf: "wellFormed exWide"
    by (simp add: wellFormed_def exWide_def)
  from run_returns_on_well_formed [OF wf, of exampleModule] wf
  show ?thesis by blast
qed

end
